theory Spec2Isabelle
  imports Main
begin

section \<open>Data model (types.go)\<close>

text \<open>
  \<^verbatim>\<open>ConstraintType\<close> is an \<^verbatim>\<open>int\<close> whose named constants start at \<^verbatim>\<open>iota + 1\<close>; the
  zero value of a fresh \<^verbatim>\<open>Constraint\<close> is none of them and is kept as its own
  constructor.
\<close>

datatype ConstraintType =
    ConstraintTypeZero
  | ConstraintTypeCheck
  | ConstraintTypeForeignKey
  | ConstraintTypePrimaryKey
  | ConstraintTypeUnique
  | ConstraintTypeTrigger
  | ConstraintTypeExclusion

datatype Datatype =
    DatatypeUnknown
  | DatatypeUserdefined
  | DatatypeArray
  | DatatypeBigint
  | DatatypeInt
  | DatatypeSmallint
  | DatatypeDecimal
  | DatatypeNumeric
  | DatatypeVariableNumeric
  | DatatypeJsonb
  | DatatypeJson
  | DatatypeText
  | DatatypeVarchar
  | DatatypeBoolean
  | DatatypeDate
  | DatatypeTimestamp
  | DatatypeTimestampz
  | DatatypeUuid

record Constraint =
  Name :: string
  Type :: ConstraintType
  Tablename :: string
  Columnname :: string
  ForeignTablename :: string
  ForeignColumnname :: string

record UserDefinedType =
  Name :: string
  Schema :: string

text \<open>
  A nil slice and an empty slice are both the empty list; the pointer field
  \<^verbatim>\<open>UserDefinedType\<close> is an option. Go's \<^verbatim>\<open>int\<close> is modelled by \<open>int\<close>: the code only
  stores and compares these numbers.
\<close>

record Column =
  OrdinalPosition :: int
  Name :: string
  Constraints :: "Constraint list"
  IsReference :: bool
  ForeignTablename :: string
  ForeignColumnname :: string
  IsPrimary :: bool
  IsUnique :: bool
  HasDefault :: bool
  Default :: string
  IsNullable :: bool
  DatatypeRaw :: string
  Datatype :: Datatype
  IsUserDefined :: bool
  IsArray :: bool
  CharacterMaxLength :: int
  UserDefinedType :: "UserDefinedType option"
  Comments :: string

record Table =
  Name :: string
  Columns :: "Column list"
  ColumnsByName :: "string \<rightharpoonup> Column"

record EnumValue =
  Label :: string
  Order :: int

record Enum =
  Name :: string
  Values :: "EnumValue list"

section \<open>Errors, panics and the catalog\<close>

text \<open>
  An \<^verbatim>\<open>error\<close> value is either one handed back by \<^verbatim>\<open>database/sql\<close> (from
  \<^verbatim>\<open>QueryContext\<close> or \<^verbatim>\<open>Scan\<close>) or one built by \<^verbatim>\<open>fmt.Errorf\<close>.
\<close>

datatype error = DriverError string | FmtError string

text \<open>
  The outcome of a function with results \<^verbatim>\<open>(v, error)\<close>: \<open>Ok v\<close> is \<^verbatim>\<open>(v, nil)\<close>,
  \<open>Failed e\<close> is a return with the non-nil error \<open>e\<close>, and \<open>Panic\<close> is the run-time
  panic of a nil pointer dereference, which returns nothing.
\<close>

datatype 'a result = Ok 'a | Failed error | Panic

text \<open>\<^verbatim>\<open>*p\<close> for a pointer filled by \<^verbatim>\<open>Scan\<close>: NULL leaves it nil.\<close>

definition deref :: "'a option \<Rightarrow> ('a \<Rightarrow> 'b result) \<Rightarrow> 'b result" where
  "deref p k = (case p of None \<Rightarrow> Panic | Some v \<Rightarrow> k v)"

text \<open>
  What a query gives: \<^verbatim>\<open>QueryContext\<close> fails, or delivers rows in some order, and
  each \<^verbatim>\<open>rows.Scan\<close> fails or fills the scanned variables.
\<close>

type_synonym 'r rows = "error + (error + 'r) list"

text \<open>The variables scanned per row, under the names the source gives them.\<close>

type_synonym EnumRow = "string \<times> int \<times> string"

record ColumnRow =
  ordinalPosition :: int
  columnName :: string
  columnDefault :: "string option"
  isNullable :: "string option"
  datatypeRaw :: string
  elementArraytypeRaw :: "string option"
  elementUdtCatalog :: "string option"
  elementUdtSchema :: "string option"
  elementUdtName :: "string option"
  characterMaximumLength :: "int option"
  numericPrecision :: "int option"
  udtCatalog :: "string option"
  udtSchema :: "string option"
  udtName :: "string option"
  comments :: "string option"

record ConstraintRow =
  constraintname :: string
  constrainttype :: string
  columnname :: "string option"
  foreignTablename :: "string option"
  foreignColumnname :: "string option"

text \<open>
  The database handle is the four catalog queries of postgres.go, each a function of
  its \<^verbatim>\<open>$1\<close>, \<^verbatim>\<open>$2\<close> arguments.
\<close>

record DB =
  queryEnums :: "string \<Rightarrow> EnumRow rows"
  queryTables :: "string \<Rightarrow> string option rows"
  queryColumns :: "string \<Rightarrow> string \<Rightarrow> ColumnRow rows"
  queryConstraints :: "string \<Rightarrow> string \<Rightarrow> ConstraintRow rows"

record PostgresAdapter =
  db :: DB
  schemaname :: string

text \<open>
  Go's \<^verbatim>\<open>range\<close> over a map visits every key once, in an order the run time chooses.
  The functions that range over a map take that order as the argument \<open>ks\<close>;
  \<open>map_range m ks\<close> says that \<open>ks\<close> is such an order for \<open>m\<close>.
\<close>

definition map_range :: "('k \<rightharpoonup> 'v) \<Rightarrow> 'k list \<Rightarrow> bool" where
  "map_range m ks \<longleftrightarrow> distinct ks \<and> set ks = dom m"

primrec range_values :: "('k \<rightharpoonup> 'v) \<Rightarrow> 'k list \<Rightarrow> 'v list" where
  "range_values m [] = []"
| "range_values m (k # ks) =
     (case m k of None \<Rightarrow> range_values m ks | Some v \<Rightarrow> v # range_values m ks)"

section \<open>postgres.go\<close>

definition postgresDatatypemap :: "string \<rightharpoonup> Datatype" where
  "postgresDatatypemap = map_of
     [(''USER-DEFINED'', DatatypeUserdefined),
      (''ARRAY'', DatatypeArray),
      (''boolean'', DatatypeBoolean),
      (''integer'', DatatypeInt),
      (''bigint'', DatatypeBigint),
      (''numeric'', DatatypeNumeric),
      (''text'', DatatypeText),
      (''character varying'', DatatypeVarchar),
      (''jsonb'', DatatypeJsonb),
      (''uuid'', DatatypeUuid),
      (''date'', DatatypeDate),
      (''timestamp without time zone'', DatatypeTimestamp),
      (''timestamp with time zone'', DatatypeTimestampz)]"

subsection \<open>Enums\<close>

fun Enums_loop :: "(error + EnumRow) list \<Rightarrow> (string \<rightharpoonup> Enum) \<Rightarrow> (string \<rightharpoonup> Enum) result" where
  "Enums_loop [] enumsByName = Ok enumsByName"
| "Enums_loop (Inl err # rows) enumsByName = Failed err"
| "Enums_loop (Inr (name, order, label) # rows) enumsByName =
     (case enumsByName name of
        Some enum \<Rightarrow>
          Enums_loop rows
            (enumsByName(name \<mapsto>
               enum\<lparr>Values := Values enum @ [\<lparr>Label = label, Order = order\<rparr>]\<rparr>))
      | None \<Rightarrow>
          Enums_loop rows
            (enumsByName(name \<mapsto>
               \<lparr>Enum.Name = name, Values = [\<lparr>Label = label, Order = order\<rparr>]\<rparr>)))"

definition PostgresAdapter_Enums :: "PostgresAdapter \<Rightarrow> string list \<Rightarrow> Enum list result" where
  "PostgresAdapter_Enums a ks =
     (case queryEnums (db a) (schemaname a) of
        Inl err \<Rightarrow> Failed err
      | Inr rows \<Rightarrow>
          (case Enums_loop rows Map.empty of
             Failed err \<Rightarrow> Failed err
           | Panic \<Rightarrow> Panic
           | Ok enumsByName \<Rightarrow> Ok (range_values enumsByName ks)))"

subsection \<open>refrenceConstraints\<close>

text \<open>
  The table is passed by pointer and updated in place; the model returns it beside the
  error, which is always nil.
\<close>

fun refrenceConstraints :: "Table \<Rightarrow> Constraint list \<Rightarrow> Table \<times> error option" where
  "refrenceConstraints table [] = (table, None)"
| "refrenceConstraints table (c # constraints) =
     (case ColumnsByName table (Columnname c) of
        None \<Rightarrow> refrenceConstraints table constraints
      | Some col0 \<Rightarrow>
          (let col1 = col0\<lparr>Constraints :=
                        (if Constraints col0 = [] then [c] else Constraints col0 @ [c])\<rparr>;
               col2 = (case Type c of
                         ConstraintTypePrimaryKey \<Rightarrow> col1\<lparr>IsPrimary := True\<rparr>
                       | ConstraintTypeForeignKey \<Rightarrow>
                           col1\<lparr>IsReference := True,
                                Column.ForeignTablename := Constraint.ForeignTablename c,
                                Column.ForeignColumnname := Constraint.ForeignColumnname c\<rparr>
                       | ConstraintTypeUnique \<Rightarrow> col1\<lparr>IsUnique := True\<rparr>
                       | _ \<Rightarrow> col1)
           in refrenceConstraints
                (table\<lparr>ColumnsByName := (ColumnsByName table)(Columnname c \<mapsto> col2)\<rparr>)
                constraints))"

subsection \<open>parseTableColumns\<close>

text \<open>
  The body of the row loop, after a successful \<^verbatim>\<open>Scan\<close>, in the three parts the source
  has. First the assignments that cannot fail: the struct literal and the fields set
  from the comment, the raw type, the length, the nullability and the default.
\<close>

definition parseTableColumns_fields :: "ColumnRow \<Rightarrow> Column" where
  "parseTableColumns_fields r =
     (let col0 = \<lparr>OrdinalPosition = ordinalPosition r,
                  Column.Name = columnName r,
                  Constraints = [],
                  IsReference = False,
                  Column.ForeignTablename = [],
                  Column.ForeignColumnname = [],
                  IsPrimary = False,
                  IsUnique = False,
                  HasDefault = False,
                  Default = [],
                  IsNullable = False,
                  DatatypeRaw = datatypeRaw r,
                  Datatype = DatatypeUnknown,
                  IsUserDefined = False,
                  IsArray = False,
                  CharacterMaxLength = 0,
                  UserDefinedType = None,
                  Comments = []\<rparr>;
          col1 = (case comments r of None \<Rightarrow> col0 | Some s \<Rightarrow> col0\<lparr>Comments := s\<rparr>);
          col2 = (case postgresDatatypemap (datatypeRaw r) of
                    Some datatype \<Rightarrow> col1\<lparr>Datatype := datatype\<rparr>
                  | None \<Rightarrow> col1\<lparr>Datatype := DatatypeUnknown\<rparr>);
          col3 = (case characterMaximumLength r of
                    None \<Rightarrow> col2
                  | Some n \<Rightarrow> col2\<lparr>CharacterMaxLength := n\<rparr>);
          col4 = (if isNullable r = Some ''YES'' then col3\<lparr>IsNullable := True\<rparr> else col3)
      in case columnDefault r of
           None \<Rightarrow> col4
         | Some d \<Rightarrow> if length d > 0 then col4\<lparr>HasDefault := True, Default := d\<rparr> else col4)"

text \<open>\<^verbatim>\<open>if col.Datatype == DatatypeUserdefined { ... }\<close>\<close>

definition parseTableColumns_userdefined :: "ColumnRow \<Rightarrow> Column \<Rightarrow> Column result" where
  "parseTableColumns_userdefined r col =
     (if Datatype col = DatatypeUserdefined
      then deref (udtName r) (\<lambda>n. deref (udtSchema r) (\<lambda>s.
             Ok (col\<lparr>IsUserDefined := True,
                     UserDefinedType := Some \<lparr>UserDefinedType.Name = n, Schema = s\<rparr>\<rparr>)))
      else Ok col)"

text \<open>\<^verbatim>\<open>if col.Datatype == DatatypeArray { ... }\<close>\<close>

definition parseTableColumns_array :: "ColumnRow \<Rightarrow> Column \<Rightarrow> Column result" where
  "parseTableColumns_array r col =
     (if Datatype col = DatatypeArray
      then deref (elementArraytypeRaw r) (\<lambda>e.
             let col1 = col\<lparr>IsArray := True\<rparr>;
                 col2 = (case postgresDatatypemap e of
                           Some elementDatatype \<Rightarrow> col1\<lparr>Datatype := elementDatatype\<rparr>
                         | None \<Rightarrow> col1\<lparr>Datatype := DatatypeUnknown\<rparr>)
             in if Datatype col2 = DatatypeUserdefined
                then deref (elementUdtName r) (\<lambda>n. deref (elementUdtSchema r) (\<lambda>s.
                       Ok (col2\<lparr>IsUserDefined := True,
                                UserDefinedType :=
                                  Some \<lparr>UserDefinedType.Name = n, Schema = s\<rparr>\<rparr>)))
                else Ok col2)
      else Ok col)"

definition parseTableColumns_row :: "ColumnRow \<Rightarrow> Column result" where
  "parseTableColumns_row r =
     (case parseTableColumns_userdefined r (parseTableColumns_fields r) of
        Failed err \<Rightarrow> Failed err
      | Panic \<Rightarrow> Panic
      | Ok col \<Rightarrow> parseTableColumns_array r col)"

fun parseTableColumns_loop :: "(error + ColumnRow) list \<Rightarrow> Column list \<Rightarrow> Column list result" where
  "parseTableColumns_loop [] cols = Ok cols"
| "parseTableColumns_loop (Inl err # rows) cols = Failed err"
| "parseTableColumns_loop (Inr r # rows) cols =
     (case parseTableColumns_row r of
        Failed err \<Rightarrow> Failed err
      | Panic \<Rightarrow> Panic
      | Ok col \<Rightarrow> parseTableColumns_loop rows (cols @ [col]))"

definition parseTableColumns :: "PostgresAdapter \<Rightarrow> string \<Rightarrow> Column list result" where
  "parseTableColumns a tablename =
     (case queryColumns (db a) (schemaname a) tablename of
        Inl err \<Rightarrow> Failed err
      | Inr rows \<Rightarrow> parseTableColumns_loop rows [])"

subsection \<open>parseTableConstraints\<close>

text \<open>
  The body of the row loop: the struct literal dereferences the three scanned
  pointers before the \<^verbatim>\<open>switch\<close> looks at the label.
\<close>

definition parseTableConstraints_row :: "string \<Rightarrow> ConstraintRow \<Rightarrow> Constraint result" where
  "parseTableConstraints_row tablename r =
     deref (columnname r) (\<lambda>cn.
     deref (foreignTablename r) (\<lambda>ft.
     deref (foreignColumnname r) (\<lambda>fc.
       let c = \<lparr>Constraint.Name = constraintname r,
                Type = ConstraintTypeZero,
                Tablename = tablename,
                Columnname = cn,
                Constraint.ForeignTablename = ft,
                Constraint.ForeignColumnname = fc\<rparr>
       in if constrainttype r = ''PRIMARY KEY'' then Ok (c\<lparr>Type := ConstraintTypePrimaryKey\<rparr>)
          else if constrainttype r = ''FOREIGN KEY'' then Ok (c\<lparr>Type := ConstraintTypeForeignKey\<rparr>)
          else if constrainttype r = ''UNIQUE'' then Ok (c\<lparr>Type := ConstraintTypeUnique\<rparr>)
          else Failed (FmtError (''unsupported constraint type: '' @ constrainttype r)))))"

fun parseTableConstraints_loop ::
  "string \<Rightarrow> (error + ConstraintRow) list \<Rightarrow> Constraint list \<Rightarrow> Constraint list result" where
  "parseTableConstraints_loop tablename [] constraints = Ok constraints"
| "parseTableConstraints_loop tablename (Inl err # rows) constraints = Failed err"
| "parseTableConstraints_loop tablename (Inr r # rows) constraints =
     (case parseTableConstraints_row tablename r of
        Failed err \<Rightarrow> Failed err
      | Panic \<Rightarrow> Panic
      | Ok c \<Rightarrow> parseTableConstraints_loop tablename rows (constraints @ [c]))"

definition parseTableConstraints :: "PostgresAdapter \<Rightarrow> string \<Rightarrow> Constraint list result" where
  "parseTableConstraints a tablename =
     (case queryConstraints (db a) (schemaname a) tablename of
        Inl err \<Rightarrow> Failed err
      | Inr rows \<Rightarrow> parseTableConstraints_loop tablename rows [])"

subsection \<open>parseTable and Tables\<close>

text \<open>
  On an error \<^verbatim>\<open>parseTable\<close> returns the half-built table beside it; its only caller
  drops that table, and so does \<open>Failed\<close>. \<^verbatim>\<open>sort.Slice\<close> is not stable; it is
  modelled by the stable \<open>sort_key\<close> on a sequence whose order \<open>ks\<close> is already
  arbitrary, so every result of the one is a result of the other.
\<close>

definition parseTable :: "PostgresAdapter \<Rightarrow> string list \<Rightarrow> string \<Rightarrow> Table result" where
  "parseTable a ks tablename =
     (let table0 = \<lparr>Table.Name = tablename, Columns = [], ColumnsByName = Map.empty\<rparr>
      in case parseTableColumns a tablename of
           Failed err \<Rightarrow> Failed err
         | Panic \<Rightarrow> Panic
         | Ok cols \<Rightarrow>
             (let table1 = table0\<lparr>ColumnsByName :=
                             fold (\<lambda>col m. m(Column.Name col \<mapsto> col)) cols Map.empty\<rparr>
              in case parseTableConstraints a tablename of
                   Failed err \<Rightarrow> Failed err
                 | Panic \<Rightarrow> Panic
                 | Ok constraints \<Rightarrow>
                     (case refrenceConstraints table1 constraints of
                        (table2, Some err) \<Rightarrow> Failed err
                      | (table2, None) \<Rightarrow>
                          (let table3 = table2\<lparr>Columns :=
                                          Columns table2 @ range_values (ColumnsByName table2) ks\<rparr>;
                               table4 = table3\<lparr>Columns :=
                                          sort_key OrdinalPosition (Columns table3)\<rparr>
                           in Ok table4))))"

text \<open>\<open>order tablename\<close> is the order in which that table's map is ranged over.\<close>

fun Tables_loop ::
  "PostgresAdapter \<Rightarrow> (string \<Rightarrow> string list) \<Rightarrow> (error + string option) list \<Rightarrow> Table list
     \<Rightarrow> Table list result" where
  "Tables_loop a order [] tables = Ok tables"
| "Tables_loop a order (Inl err # rows) tables = Failed err"
| "Tables_loop a order (Inr tablename # rows) tables =
     deref tablename (\<lambda>tn.
       case parseTable a (order tn) tn of
         Failed err \<Rightarrow> Failed err
       | Panic \<Rightarrow> Panic
       | Ok table \<Rightarrow> Tables_loop a order rows (tables @ [table]))"

definition PostgresAdapter_Tables ::
  "PostgresAdapter \<Rightarrow> (string \<Rightarrow> string list) \<Rightarrow> Table list result" where
  "PostgresAdapter_Tables a order =
     (case queryTables (db a) (schemaname a) of
        Inl err \<Rightarrow> Failed err
      | Inr rows \<Rightarrow> Tables_loop a order rows [])"

section \<open>The Schema and its Parse\<close>

text \<open>
  A call of an interface method either returns its results or panics. An
  \<^verbatim>\<open>Adapter\<close> is any implementation of the two methods; what a call does to the
  outside world is the state \<open>'w\<close> it takes and gives back, so that a method that
  was not called has left no trace there.
\<close>

datatype 'a call = Returns 'a | Panics

record 'w Adapter =
  Tables :: "'w \<Rightarrow> (Table list \<times> error option) call \<times> 'w"
  Enums :: "'w \<Rightarrow> (Enum list \<times> error option) call \<times> 'w"

record 'w Schema =
  adapter :: "'w Adapter"
  Tables :: "Table list"
  Enums :: "Enum list"

definition ParseContext :: "'w Schema \<Rightarrow> 'w \<Rightarrow> error option call \<times> 'w Schema \<times> 'w" where
  "ParseContext s w =
     (case Adapter.Tables (adapter s) w of
        (Panics, w1) \<Rightarrow> (Panics, s, w1)
      | (Returns (tables, err), w1) \<Rightarrow>
          (let s1 = s\<lparr>Schema.Tables := tables\<rparr>
           in case err of
                Some e \<Rightarrow> (Returns (Some e), s1, w1)
              | None \<Rightarrow>
                  (case Adapter.Enums (adapter s1) w1 of
                     (Panics, w2) \<Rightarrow> (Panics, s1, w2)
                   | (Returns (enums, err2), w2) \<Rightarrow>
                       (let s2 = s1\<lparr>Schema.Enums := enums\<rparr>
                        in case err2 of
                             Some e \<Rightarrow> (Returns (Some e), s2, w2)
                           | None \<Rightarrow> (Returns None, s2, w2)))))"

section \<open>An example catalog\<close>

text \<open>
  The table \<^verbatim>\<open>users (id int primary key, email varchar unique, role_id int
  references roles(id), tags int[])\<close> of the namespace \<^verbatim>\<open>public\<close>, its rows delivered
  out of ordinal order, and the enumerated type \<^verbatim>\<open>status\<close>.
\<close>

definition example_column :: "int \<Rightarrow> string \<Rightarrow> string \<Rightarrow> string option \<Rightarrow> ColumnRow" where
  "example_column pos name raw element =
     \<lparr>ordinalPosition = pos, columnName = name, columnDefault = None,
      isNullable = Some ''NO'', datatypeRaw = raw, elementArraytypeRaw = element,
      elementUdtCatalog = None, elementUdtSchema = None, elementUdtName = None,
      characterMaximumLength = None, numericPrecision = None,
      udtCatalog = None, udtSchema = None, udtName = None, comments = None\<rparr>"

definition example_constraint ::
  "string \<Rightarrow> string \<Rightarrow> string option \<Rightarrow> string option \<Rightarrow> string option \<Rightarrow> ConstraintRow" where
  "example_constraint name label column ftable fcolumn =
     \<lparr>constraintname = name, constrainttype = label, columnname = column,
      foreignTablename = ftable, foreignColumnname = fcolumn\<rparr>"

definition users_columns :: "ColumnRow list" where
  "users_columns =
     [example_column 3 ''role_id'' ''integer'' None,
      example_column 1 ''id'' ''integer'' None,
      example_column 4 ''tags'' ''ARRAY'' (Some ''integer''),
      example_column 2 ''email'' ''character varying'' None]"

definition users_constraints :: "ConstraintRow list" where
  "users_constraints =
     [example_constraint ''users_pkey'' ''PRIMARY KEY'' (Some ''id'') (Some ''users'') (Some ''id''),
      example_constraint ''users_email_key'' ''UNIQUE'' (Some ''email'') (Some ''users'') (Some ''email''),
      example_constraint ''users_role_id_fkey'' ''FOREIGN KEY'' (Some ''role_id'') (Some ''roles'') (Some ''id'')]"

definition status_rows :: "EnumRow list" where
  "status_rows = [(''status'', 1, ''done''), (''status'', 0, ''pending'')]"

definition example_db :: DB where
  "example_db =
     \<lparr>queryEnums = (\<lambda>schema. Inr (map Inr status_rows)),
      queryTables = (\<lambda>schema. Inr [Inr (Some ''users'')]),
      queryColumns = (\<lambda>schema tablename. Inr (map Inr users_columns)),
      queryConstraints = (\<lambda>schema tablename. Inr (map Inr users_constraints))\<rparr>"

definition example_adapter :: PostgresAdapter where
  "example_adapter = \<lparr>db = example_db, schemaname = ''public''\<rparr>"

text \<open>The same adapter with other constraint rows, column rows or table rows.\<close>

definition with_constraints :: "ConstraintRow list \<Rightarrow> PostgresAdapter" where
  "with_constraints rows =
     example_adapter\<lparr>db := example_db\<lparr>queryConstraints :=
       (\<lambda>schema tablename. Inr (map Inr rows))\<rparr>\<rparr>"

definition with_columns :: "ColumnRow list \<Rightarrow> PostgresAdapter" where
  "with_columns rows =
     example_adapter\<lparr>db := example_db\<lparr>queryColumns :=
       (\<lambda>schema tablename. Inr (map Inr rows))\<rparr>\<rparr>"

definition with_tables :: "string option list \<Rightarrow> PostgresAdapter" where
  "with_tables rows =
     example_adapter\<lparr>db := example_db\<lparr>queryTables := (\<lambda>schema. Inr (map Inr rows))\<rparr>\<rparr>"

text \<open>The column \<^verbatim>\<open>email\<close> and the table \<^verbatim>\<open>users\<close> before reconciliation.\<close>

definition plain_column :: "int \<Rightarrow> string \<Rightarrow> string \<Rightarrow> Datatype \<Rightarrow> Column" where
  "plain_column pos name raw datatype =
     \<lparr>OrdinalPosition = pos, Column.Name = name, Constraints = [], IsReference = False,
      Column.ForeignTablename = [], Column.ForeignColumnname = [], IsPrimary = False,
      IsUnique = False, HasDefault = False, Default = [], IsNullable = False,
      DatatypeRaw = raw, Datatype = datatype, IsUserDefined = False, IsArray = False,
      CharacterMaxLength = 0, UserDefinedType = None, Comments = []\<rparr>"

definition users_table :: Table where
  "users_table =
     \<lparr>Table.Name = ''users'', Columns = [],
      ColumnsByName =
        [''id'' \<mapsto> plain_column 1 ''id'' ''integer'' DatatypeInt,
         ''email'' \<mapsto> plain_column 2 ''email'' ''character varying'' DatatypeVarchar]\<rparr>"

definition mk_constraint :: "string \<Rightarrow> ConstraintType \<Rightarrow> string \<Rightarrow> string \<Rightarrow> string \<Rightarrow> Constraint" where
  "mk_constraint name type column ftable fcolumn =
     \<lparr>Constraint.Name = name, Type = type, Tablename = ''users'', Columnname = column,
      Constraint.ForeignTablename = ftable, Constraint.ForeignColumnname = fcolumn\<rparr>"

definition users_pkey :: Constraint where
  "users_pkey = mk_constraint ''users_pkey'' ConstraintTypePrimaryKey ''id'' ''users'' ''id''"

definition users_email_key :: Constraint where
  "users_email_key =
     mk_constraint ''users_email_key'' ConstraintTypeUnique ''email'' ''users'' ''email''"

text \<open>A constraint on a column that \<open>users_table\<close> does not have.\<close>

definition orphan_key :: Constraint where
  "orphan_key =
     mk_constraint ''orphan_key'' ConstraintTypeUnique ''nickname'' ''users'' ''nickname''"

definition with_rows :: "ColumnRow list \<Rightarrow> ConstraintRow list \<Rightarrow> PostgresAdapter" where
  "with_rows cols cons =
     example_adapter\<lparr>db := example_db
       \<lparr>queryColumns := (\<lambda>schema tablename. Inr (map Inr cols)),
        queryConstraints := (\<lambda>schema tablename. Inr (map Inr cons))\<rparr>\<rparr>"





text \<open>
  Two implementations of \<^verbatim>\<open>Adapter\<close> whose world is the log of the calls made: one
  whose \<^verbatim>\<open>Tables\<close> fails, one whose two methods succeed.
\<close>

definition failing_adapter :: "string list Adapter" where
  "failing_adapter =
     \<lparr>Adapter.Tables = (\<lambda>log. (Returns ([], Some (DriverError ''connection refused'')),
                                 log @ [''Tables''])),
      Adapter.Enums = (\<lambda>log. (Returns ([], None), log @ [''Enums'']))\<rparr>"

definition logging_adapter :: "string list Adapter" where
  "logging_adapter =
     \<lparr>Adapter.Tables = (\<lambda>log. (Returns ([users_table], None), log @ [''Tables''])),
      Adapter.Enums = (\<lambda>log. (Returns ([], None), log @ [''Enums'']))\<rparr>"

definition new_schema :: "'w Adapter \<Rightarrow> 'w Schema" where
  "new_schema a = \<lparr>adapter = a, Schema.Tables = [], Schema.Enums = []\<rparr>"

section \<open>Properties of refrenceConstraints\<close>

lemma refrenceConstraints_no_error: "snd (refrenceConstraints table cs) = None"
  by (induction cs arbitrary: table) (auto split: option.splits simp: Let_def)

lemma refrenceConstraints_dom: "dom (ColumnsByName (fst (refrenceConstraints table cs))) = dom (ColumnsByName table)"
  by (induction cs arbitrary: table) (auto split: option.splits simp: Let_def)

lemma refrenceConstraints_other_keys:
  "k \<notin> Columnname ` set cs \<Longrightarrow>
   ColumnsByName (fst (refrenceConstraints table cs)) k = ColumnsByName table k"
  by (induction cs arbitrary: table) (auto split: option.splits simp: Let_def)

lemma refrenceConstraints_name_columns:
  "Table.Name (fst (refrenceConstraints table cs)) = Table.Name table \<and>
   Columns (fst (refrenceConstraints table cs)) = Columns table"
  by (induction cs arbitrary: table) (auto split: option.splits simp: Let_def)

lemma refrenceConstraints_skip:
  "ColumnsByName table (Columnname c) = None \<Longrightarrow>
   refrenceConstraints table (cs1 @ c # cs2) = refrenceConstraints table (cs1 @ cs2)"
proof (induction cs1 arbitrary: table)
  case Nil
  then show ?case by simp
next
  case (Cons c1 cs1)
  show ?case
  proof (cases "ColumnsByName table (Columnname c1)")
    case None
    then show ?thesis using Cons by simp
  next
    case (Some col0)
    then have "Columnname c1 \<noteq> Columnname c" using Cons.prems by auto
    then show ?thesis using Some Cons by (simp add: Let_def)
  qed
qed

lemma refrenceConstraints_column:
  "ColumnsByName table k = Some col \<Longrightarrow>
   ColumnsByName (fst (refrenceConstraints table cs)) k =
     Some (col\<lparr>Constraints := Constraints col @ filter (\<lambda>c. Columnname c = k) cs,
        IsPrimary := IsPrimary col \<or>
          (\<exists>c\<in>set cs. Columnname c = k \<and> Type c = ConstraintTypePrimaryKey),
        IsUnique := IsUnique col \<or>
          (\<exists>c\<in>set cs. Columnname c = k \<and> Type c = ConstraintTypeUnique),
        IsReference := IsReference col \<or>
          (\<exists>c\<in>set cs. Columnname c = k \<and> Type c = ConstraintTypeForeignKey),
        Column.ForeignTablename :=
          (case filter (\<lambda>c. Columnname c = k \<and> Type c = ConstraintTypeForeignKey) cs of
             [] \<Rightarrow> Column.ForeignTablename col
           | fks \<Rightarrow> Constraint.ForeignTablename (last fks)),
        Column.ForeignColumnname :=
          (case filter (\<lambda>c. Columnname c = k \<and> Type c = ConstraintTypeForeignKey) cs of
             [] \<Rightarrow> Column.ForeignColumnname col
           | fks \<Rightarrow> Constraint.ForeignColumnname (last fks))\<rparr>)"
proof (induction cs arbitrary: table col)
  case Nil
  then show ?case by simp
next
  case (Cons c cs)
  show ?case
  proof (cases "Columnname c = k")
    case False
    then show ?thesis using Cons.IH[of _ col] Cons.prems
      by (auto split: option.splits simp: Let_def)
  next
    case True
    define col2 where "col2 =
      (case Type c of
         ConstraintTypePrimaryKey \<Rightarrow> col\<lparr>Constraints := Constraints col @ [c], IsPrimary := True\<rparr>
       | ConstraintTypeForeignKey \<Rightarrow>
           col\<lparr>Constraints := Constraints col @ [c], IsReference := True,
               Column.ForeignTablename := Constraint.ForeignTablename c,
               Column.ForeignColumnname := Constraint.ForeignColumnname c\<rparr>
       | ConstraintTypeUnique \<Rightarrow> col\<lparr>Constraints := Constraints col @ [c], IsUnique := True\<rparr>
       | _ \<Rightarrow> col\<lparr>Constraints := Constraints col @ [c]\<rparr>)"
    define table' where "table' = table\<lparr>ColumnsByName := (ColumnsByName table)(k \<mapsto> col2)\<rparr>"
    have step: "refrenceConstraints table (c # cs) = refrenceConstraints table' cs"
      using True Cons.prems
      by (cases "Type c") (simp_all add: Let_def col2_def table'_def)
    have "ColumnsByName table' k = Some col2" by (simp add: table'_def)
    note IH = Cons.IH[OF this]
    show ?thesis
      unfolding step IH using True
      by (cases "Type c") (auto simp: col2_def split: list.splits)
  qed
qed

text \<open>
  Claim C10. Reconciliation leaves the key set of the lookup mapping as it was, leaves
  every entry whose key is the owning column name of no constraint exactly as it was,
  in all fields, and touches neither the table's name nor its ordered sequence.
\<close>

theorem refrenceConstraints_frame:
  "dom (ColumnsByName (fst (refrenceConstraints table cs))) = dom (ColumnsByName table) \<and>
   (\<forall>k. k \<notin> Columnname ` set cs \<longrightarrow>
        ColumnsByName (fst (refrenceConstraints table cs)) k = ColumnsByName table k) \<and>
   Table.Name (fst (refrenceConstraints table cs)) = Table.Name table \<and>
   Columns (fst (refrenceConstraints table cs)) = Columns table"
  using refrenceConstraints_dom[of table cs] refrenceConstraints_other_keys[of _ cs table] refrenceConstraints_name_columns[of table cs] by blast

theorem refrenceConstraints_frame_witness:
  "''email'' \<notin> Columnname ` set [users_pkey] \<and>
   ColumnsByName (fst (refrenceConstraints users_table [users_pkey])) ''email''
     = Some (plain_column 2 ''email'' ''character varying'' DatatypeVarchar) \<and>
   dom (ColumnsByName (fst (refrenceConstraints users_table [users_pkey]))) = {''id'', ''email''}"
  using refrenceConstraints_frame[of users_table "[users_pkey]"]
  by (auto simp: users_table_def users_pkey_def mk_constraint_def)

lemma refrenceConstraints_not_attached:
  assumes "ColumnsByName table (Columnname c) = None"
    and "\<forall>col\<in>ran (ColumnsByName table). c \<notin> set (Constraints col)"
  shows "\<forall>col\<in>ran (ColumnsByName (fst (refrenceConstraints table cs))). c \<notin> set (Constraints col)"
proof
  fix col' assume "col' \<in> ran (ColumnsByName (fst (refrenceConstraints table cs)))"
  then obtain k where k: "ColumnsByName (fst (refrenceConstraints table cs)) k = Some col'"
    by (auto simp: ran_def)
  then have "k \<in> dom (ColumnsByName table)" using refrenceConstraints_dom[of table cs] by auto
  then obtain col where col: "ColumnsByName table k = Some col" by auto
  have "Constraints col' = Constraints col @ filter (\<lambda>c. Columnname c = k) cs"
    using refrenceConstraints_column[OF col, of cs] k by auto
  moreover have "c \<notin> set (Constraints col)" using assms(2) col by (auto simp: ran_def)
  moreover have "Columnname c \<noteq> k" using assms(1) col by auto
  ultimately show "c \<notin> set (Constraints col')" by auto
qed

text \<open>
  Claim C7. A constraint whose owning column name is not a key of the lookup mapping
  is skipped: reconciliation returns no error, its result is the result of
  reconciling the list without that constraint (so no column changes on its account),
  and the constraint is attached to no column of the result.
\<close>

theorem refrenceConstraints_orphan:
  assumes "ColumnsByName table (Columnname c) = None"
  shows "snd (refrenceConstraints table (cs1 @ c # cs2)) = None \<and>
    refrenceConstraints table (cs1 @ c # cs2) = refrenceConstraints table (cs1 @ cs2) \<and>
    ((\<forall>col\<in>ran (ColumnsByName table). c \<notin> set (Constraints col)) \<longrightarrow>
     (\<forall>col\<in>ran (ColumnsByName (fst (refrenceConstraints table (cs1 @ c # cs2)))).
        c \<notin> set (Constraints col)))"
  using refrenceConstraints_no_error[of table "cs1 @ c # cs2"] refrenceConstraints_skip[OF assms, of cs1 cs2]
    refrenceConstraints_not_attached[OF assms, of "cs1 @ c # cs2"] by blast


theorem refrenceConstraints_orphan_witness:
  "ColumnsByName users_table (Columnname orphan_key) = None \<and>
   snd (refrenceConstraints users_table ([users_pkey] @ orphan_key # [users_email_key])) = None \<and>
   refrenceConstraints users_table ([users_pkey] @ orphan_key # [users_email_key]) =
     refrenceConstraints users_table ([users_pkey] @ [users_email_key]) \<and>
   orphan_key \<notin> (\<Union>col\<in>ran (ColumnsByName (fst (refrenceConstraints users_table
       ([users_pkey] @ orphan_key # [users_email_key])))). set (Constraints col))"
proof -
  have h1: "ColumnsByName users_table (Columnname orphan_key) = None"
    by (simp add: users_table_def orphan_key_def mk_constraint_def)
  have h2: "\<forall>col\<in>ran (ColumnsByName users_table). orphan_key \<notin> set (Constraints col)"
    by (auto simp: users_table_def plain_column_def ran_def split: if_splits)
  show ?thesis
    using h1 h2 refrenceConstraints_orphan[OF h1, of "[users_pkey]" "[users_email_key]"]
    by blast
qed

section \<open>Properties of parseTableConstraints\<close>

lemma parseTableConstraints_row_Ok:
  "parseTableConstraints_row t r = Ok c \<longleftrightarrow>
   (\<exists>cn ft fc ty. columnname r = Some cn \<and> foreignTablename r = Some ft \<and>
      foreignColumnname r = Some fc \<and>
      (constrainttype r = ''PRIMARY KEY'' \<and> ty = ConstraintTypePrimaryKey \<or>
       constrainttype r = ''FOREIGN KEY'' \<and> ty = ConstraintTypeForeignKey \<or>
       constrainttype r = ''UNIQUE'' \<and> ty = ConstraintTypeUnique) \<and>
      c = \<lparr>Constraint.Name = constraintname r, Type = ty, Tablename = t, Columnname = cn,
           Constraint.ForeignTablename = ft, Constraint.ForeignColumnname = fc\<rparr>)"
  by (auto simp: parseTableConstraints_row_def deref_def Let_def split: option.splits)

lemma parseTableConstraints_row_Failed:
  "parseTableConstraints_row t r = Failed e \<longleftrightarrow>
   (columnname r \<noteq> None \<and> foreignTablename r \<noteq> None \<and> foreignColumnname r \<noteq> None \<and>
    constrainttype r \<notin> {''PRIMARY KEY'', ''FOREIGN KEY'', ''UNIQUE''} \<and>
    e = FmtError (''unsupported constraint type: '' @ constrainttype r))"
  by (auto simp: parseTableConstraints_row_def deref_def Let_def split: option.splits)

lemma parseTableConstraints_row_Panic:
  "parseTableConstraints_row t r = Panic \<longleftrightarrow>
   (columnname r = None \<or> foreignTablename r = None \<or> foreignColumnname r = None)"
  by (auto simp: parseTableConstraints_row_def deref_def Let_def split: option.splits)

lemma parseTableConstraints_loop_Ok:
  "parseTableConstraints_loop t rows acc = Ok cs \<longleftrightarrow>
   (\<exists>rs cs'. rows = map Inr rs \<and> cs = acc @ cs' \<and>
      list_all2 (\<lambda>r c. parseTableConstraints_row t r = Ok c) rs cs')"
proof (induction t rows acc rule: parseTableConstraints_loop.induct)
  case (1 t acc)
  then show ?case by auto
next
  case (2 t err rows acc)
  then show ?case by auto
next
  case (3 t r rows acc)
  show ?case
  proof (cases "parseTableConstraints_row t r")
    case (Ok c)
    have "parseTableConstraints_loop t (Inr r # rows) acc = Ok cs \<longleftrightarrow>
      (\<exists>rs cs'. rows = map Inr rs \<and> cs = (acc @ [c]) @ cs' \<and>
         list_all2 (\<lambda>r c. parseTableConstraints_row t r = Ok c) rs cs')"
      using 3 Ok by simp
    also have "\<dots> \<longleftrightarrow> (\<exists>rs cs'. Inr r # rows = map Inr rs \<and> cs = acc @ cs' \<and>
         list_all2 (\<lambda>r c. parseTableConstraints_row t r = Ok c) rs cs')"
      using Ok by (auto simp: Cons_eq_map_conv list_all2_Cons1)
    finally show ?thesis .
  next
    case (Failed e)
    then show ?thesis by (auto simp: Cons_eq_map_conv list_all2_Cons1)
  next
    case Panic
    then show ?thesis by (auto simp: Cons_eq_map_conv list_all2_Cons1)
  qed
qed

lemma parseTableConstraints_Ok:
  "parseTableConstraints a t = Ok cs \<longleftrightarrow>
   (\<exists>rs. queryConstraints (db a) (schemaname a) t = Inr (map Inr rs) \<and>
      list_all2 (\<lambda>r c. parseTableConstraints_row t r = Ok c) rs cs)"
  by (auto simp: parseTableConstraints_def parseTableConstraints_loop_Ok split: sum.splits)

text \<open>
  Claim C2, as amended. Every constraint record that the extractor produces, of
  whatever type, carries in \<open>ForeignTablename\<close> and \<open>ForeignColumnname\<close> the foreign
  table and column names of its catalog row, verbatim; so for a primary-key or unique
  row they are empty strings only when the catalog row holds empty strings.
\<close>

theorem parseTableConstraints_foreign_verbatim:
  assumes "parseTableConstraints a t = Ok cs"
  shows "\<exists>rs. queryConstraints (db a) (schemaname a) t = Inr (map Inr rs) \<and>
    length cs = length rs \<and>
    (\<forall>i<length cs.
       foreignTablename (rs ! i) = Some (Constraint.ForeignTablename (cs ! i)) \<and>
       foreignColumnname (rs ! i) = Some (Constraint.ForeignColumnname (cs ! i)) \<and>
       Type (cs ! i) \<in> {ConstraintTypePrimaryKey, ConstraintTypeForeignKey, ConstraintTypeUnique})"
proof -
  from assms obtain rs where rs: "queryConstraints (db a) (schemaname a) t = Inr (map Inr rs)"
    "list_all2 (\<lambda>r c. parseTableConstraints_row t r = Ok c) rs cs"
    by (auto simp: parseTableConstraints_Ok)
  have len: "length cs = length rs" using rs(2) by (simp add: list_all2_lengthD)
  have "\<forall>i<length cs. parseTableConstraints_row t (rs ! i) = Ok (cs ! i)"
    using rs(2) by (simp add: list_all2_conv_all_nth)
  then show ?thesis using rs(1) len
    by (intro exI[of _ rs]) (auto simp: parseTableConstraints_row_Ok)
qed

section \<open>Properties of parseTableColumns\<close>

lemma parseTableColumns_fields_simps:
  "Constraints (parseTableColumns_fields r) = []"
  "IsPrimary (parseTableColumns_fields r) = False"
  "IsUnique (parseTableColumns_fields r) = False"
  "IsReference (parseTableColumns_fields r) = False"
  "Column.ForeignTablename (parseTableColumns_fields r) = []"
  "Column.ForeignColumnname (parseTableColumns_fields r) = []"
  "Column.Name (parseTableColumns_fields r) = columnName r"
  "OrdinalPosition (parseTableColumns_fields r) = ordinalPosition r"
  "DatatypeRaw (parseTableColumns_fields r) = datatypeRaw r"
  "IsArray (parseTableColumns_fields r) = False"
  "IsUserDefined (parseTableColumns_fields r) = False"
  "UserDefinedType (parseTableColumns_fields r) = None"
  "Datatype (parseTableColumns_fields r) =
     (case postgresDatatypemap (datatypeRaw r) of Some d \<Rightarrow> d | None \<Rightarrow> DatatypeUnknown)"
  by (simp_all add: parseTableColumns_fields_def Let_def split: option.splits)

lemma postgresDatatypemap_array: "postgresDatatypemap raw = Some DatatypeArray \<longleftrightarrow> raw = ''ARRAY''"
  by (auto simp: postgresDatatypemap_def split: if_splits)

lemma postgresDatatypemap_userdefined:
  "postgresDatatypemap raw = Some DatatypeUserdefined \<longleftrightarrow> raw = ''USER-DEFINED''"
  by (auto simp: postgresDatatypemap_def split: if_splits)

lemmas row_defs = parseTableColumns_row_def parseTableColumns_userdefined_def
  parseTableColumns_array_def deref_def Let_def parseTableColumns_fields_simps

lemma parseTableColumns_row_fresh:
  assumes "parseTableColumns_row r = Ok col"
  shows "Constraints col = [] \<and> \<not> IsPrimary col \<and> \<not> IsUnique col \<and> \<not> IsReference col \<and>
    Column.ForeignTablename col = [] \<and> Column.ForeignColumnname col = [] \<and>
    Column.Name col = columnName r \<and> OrdinalPosition col = ordinalPosition r \<and>
    DatatypeRaw col = datatypeRaw r"
  using assms
  by (auto simp: row_defs split: option.splits if_splits)

lemma parseTableColumns_row_array:
  assumes "parseTableColumns_row r = Ok col"
    and "postgresDatatypemap (datatypeRaw r) = Some DatatypeArray"
  shows "IsArray col \<and>
    (\<exists>e. elementArraytypeRaw r = Some e \<and>
       Datatype col = (case postgresDatatypemap e of Some d \<Rightarrow> d | None \<Rightarrow> DatatypeUnknown)) \<and>
    (Datatype col = DatatypeUserdefined \<longrightarrow>
       IsUserDefined col \<and>
       (\<exists>n s. elementUdtName r = Some n \<and> elementUdtSchema r = Some s \<and>
          UserDefinedType col = Some \<lparr>UserDefinedType.Name = n, Schema = s\<rparr>))"
  using assms
  by (auto simp: row_defs split: option.splits if_splits)

lemma parseTableColumns_row_array_Ok:
  assumes "postgresDatatypemap (datatypeRaw r) = Some DatatypeArray"
    and "elementArraytypeRaw r = Some e"
    and "postgresDatatypemap e = Some DatatypeUserdefined \<longrightarrow>
           elementUdtName r \<noteq> None \<and> elementUdtSchema r \<noteq> None"
  shows "\<exists>col. parseTableColumns_row r = Ok col"
  using assms
  by (auto simp: row_defs split: option.splits if_splits)

lemma parseTableColumns_row_Panic:
  "parseTableColumns_row r = Panic \<longleftrightarrow>
     (postgresDatatypemap (datatypeRaw r) = Some DatatypeUserdefined \<and>
        (udtName r = None \<or> udtSchema r = None)) \<or>
     (postgresDatatypemap (datatypeRaw r) = Some DatatypeArray \<and>
        (elementArraytypeRaw r = None \<or>
         (\<exists>e. elementArraytypeRaw r = Some e \<and>
              postgresDatatypemap e = Some DatatypeUserdefined \<and>
              (elementUdtName r = None \<or> elementUdtSchema r = None))))"
  by (auto simp: row_defs split: option.splits if_splits)

lemma parseTableColumns_row_not_Failed: "parseTableColumns_row r \<noteq> Failed e"
  by (auto simp: row_defs split: option.splits if_splits)

lemma parseTableColumns_loop_Ok:
  "parseTableColumns_loop rows acc = Ok cols \<longleftrightarrow>
   (\<exists>rs cols'. rows = map Inr rs \<and> cols = acc @ cols' \<and>
      list_all2 (\<lambda>r col. parseTableColumns_row r = Ok col) rs cols')"
proof (induction rows acc rule: parseTableColumns_loop.induct)
  case (1 acc)
  then show ?case by auto
next
  case (2 err rows acc)
  then show ?case by auto
next
  case (3 r rows acc)
  show ?case
  proof (cases "parseTableColumns_row r")
    case (Ok col)
    have "parseTableColumns_loop (Inr r # rows) acc = Ok cols \<longleftrightarrow>
      (\<exists>rs cols'. rows = map Inr rs \<and> cols = (acc @ [col]) @ cols' \<and>
         list_all2 (\<lambda>r col. parseTableColumns_row r = Ok col) rs cols')"
      using 3 Ok by simp
    also have "\<dots> \<longleftrightarrow> (\<exists>rs cols'. Inr r # rows = map Inr rs \<and> cols = acc @ cols' \<and>
         list_all2 (\<lambda>r col. parseTableColumns_row r = Ok col) rs cols')"
      using Ok by (auto simp: Cons_eq_map_conv list_all2_Cons1)
    finally show ?thesis .
  next
    case (Failed e)
    then show ?thesis by (auto simp: Cons_eq_map_conv list_all2_Cons1)
  next
    case Panic
    then show ?thesis by (auto simp: Cons_eq_map_conv list_all2_Cons1)
  qed
qed

lemma parseTableColumns_Ok:
  "parseTableColumns a t = Ok cols \<longleftrightarrow>
   (\<exists>rs. queryColumns (db a) (schemaname a) t = Inr (map Inr rs) \<and>
      list_all2 (\<lambda>r col. parseTableColumns_row r = Ok col) rs cols)"
  by (auto simp: parseTableColumns_def parseTableColumns_loop_Ok split: sum.splits)

lemma parseTableColumns_loop_total:
  assumes "\<forall>r\<in>set rs. \<exists>col. parseTableColumns_row r = Ok col"
  shows "\<exists>cols. parseTableColumns_loop (map Inr rs) acc = Ok (acc @ cols) \<and>
    list_all2 (\<lambda>r col. parseTableColumns_row r = Ok col) rs cols"
  using assms
proof (induction rs arbitrary: acc)
  case Nil
  then show ?case by simp
next
  case (Cons r rs)
  then obtain col where col: "parseTableColumns_row r = Ok col" by auto
  from Cons.IH[of "acc @ [col]"] Cons.prems obtain cols where
    "parseTableColumns_loop (map Inr rs) (acc @ [col]) = Ok ((acc @ [col]) @ cols)"
    "list_all2 (\<lambda>r col. parseTableColumns_row r = Ok col) rs cols" by auto
  then show ?case using col by (intro exI[of _ "col # cols"]) simp
qed

lemma parseTableColumns_array_table:
  assumes "queryColumns (db a) (schemaname a) t = Inr (map Inr rs)"
    and "\<forall>r\<in>set rs.
      (postgresDatatypemap (datatypeRaw r) = Some DatatypeUserdefined \<longrightarrow>
         udtName r \<noteq> None \<and> udtSchema r \<noteq> None) \<and>
      (postgresDatatypemap (datatypeRaw r) = Some DatatypeArray \<longrightarrow>
         elementArraytypeRaw r \<noteq> None \<and>
         (\<forall>e. elementArraytypeRaw r = Some e \<and>
              postgresDatatypemap e = Some DatatypeUserdefined \<longrightarrow>
              elementUdtName r \<noteq> None \<and> elementUdtSchema r \<noteq> None))"
  shows "\<exists>cols. parseTableColumns a t = Ok cols \<and> length cols = length rs \<and>
    (\<forall>i<length rs. postgresDatatypemap (datatypeRaw (rs ! i)) = Some DatatypeArray \<longrightarrow>
       IsArray (cols ! i) \<and>
       DatatypeRaw (cols ! i) = datatypeRaw (rs ! i) \<and>
       (\<exists>e. elementArraytypeRaw (rs ! i) = Some e \<and>
          Datatype (cols ! i) =
            (case postgresDatatypemap e of Some d \<Rightarrow> d | None \<Rightarrow> DatatypeUnknown)) \<and>
       (Datatype (cols ! i) = DatatypeUserdefined \<longrightarrow>
          IsUserDefined (cols ! i) \<and>
          (\<exists>n s. elementUdtName (rs ! i) = Some n \<and> elementUdtSchema (rs ! i) = Some s \<and>
             UserDefinedType (cols ! i) = Some \<lparr>UserDefinedType.Name = n, Schema = s\<rparr>)) \<and>
       (elementArraytypeRaw (rs ! i) = Some ''integer'' \<longrightarrow> Datatype (cols ! i) = DatatypeInt))"
proof -
  have "\<exists>col. parseTableColumns_row r = Ok col" if "r \<in> set rs" for r
  proof (cases "parseTableColumns_row r")
    case (Ok col)
    then show ?thesis by blast
  next
    case (Failed e)
    then show ?thesis using parseTableColumns_row_not_Failed[of r e] by simp
  next
    case Panic
    then show ?thesis
      using assms(2) that unfolding parseTableColumns_row_Panic by blast
  qed
  then have "\<forall>r\<in>set rs. \<exists>col. parseTableColumns_row r = Ok col" by blast
  from parseTableColumns_loop_total[OF this, of "[]"] obtain cols where
    loop: "parseTableColumns_loop (map Inr rs) [] = Ok cols"
    and rows: "list_all2 (\<lambda>r col. parseTableColumns_row r = Ok col) rs cols" by auto
  have ok: "parseTableColumns a t = Ok cols"
    using assms(1) loop by (simp add: parseTableColumns_def)
  have len: "length cols = length rs" using rows by (simp add: list_all2_lengthD)
  have row: "parseTableColumns_row (rs ! i) = Ok (cols ! i)" if "i < length rs" for i
    using rows that by (simp add: list_all2_conv_all_nth)
  have int: "postgresDatatypemap ''integer'' = Some DatatypeInt"
    by (simp add: postgresDatatypemap_def)
  have "\<forall>i<length rs. postgresDatatypemap (datatypeRaw (rs ! i)) = Some DatatypeArray \<longrightarrow>
       IsArray (cols ! i) \<and>
       DatatypeRaw (cols ! i) = datatypeRaw (rs ! i) \<and>
       (\<exists>e. elementArraytypeRaw (rs ! i) = Some e \<and>
          Datatype (cols ! i) =
            (case postgresDatatypemap e of Some d \<Rightarrow> d | None \<Rightarrow> DatatypeUnknown)) \<and>
       (Datatype (cols ! i) = DatatypeUserdefined \<longrightarrow>
          IsUserDefined (cols ! i) \<and>
          (\<exists>n s. elementUdtName (rs ! i) = Some n \<and> elementUdtSchema (rs ! i) = Some s \<and>
             UserDefinedType (cols ! i) = Some \<lparr>UserDefinedType.Name = n, Schema = s\<rparr>)) \<and>
       (elementArraytypeRaw (rs ! i) = Some ''integer'' \<longrightarrow> Datatype (cols ! i) = DatatypeInt)"
  proof (intro allI impI)
    fix i assume i: "i < length rs"
      and arr: "postgresDatatypemap (datatypeRaw (rs ! i)) = Some DatatypeArray"
    note A = parseTableColumns_row_array[OF row[OF i] arr]
    note F = parseTableColumns_row_fresh[OF row[OF i]]
    from A obtain e where e: "elementArraytypeRaw (rs ! i) = Some e"
      "Datatype (cols ! i) =
         (case postgresDatatypemap e of Some d \<Rightarrow> d | None \<Rightarrow> DatatypeUnknown)" by blast
    have "elementArraytypeRaw (rs ! i) = Some ''integer'' \<longrightarrow> Datatype (cols ! i) = DatatypeInt"
      using e int by auto
    then show "IsArray (cols ! i) \<and>
       DatatypeRaw (cols ! i) = datatypeRaw (rs ! i) \<and>
       (\<exists>e. elementArraytypeRaw (rs ! i) = Some e \<and>
          Datatype (cols ! i) =
            (case postgresDatatypemap e of Some d \<Rightarrow> d | None \<Rightarrow> DatatypeUnknown)) \<and>
       (Datatype (cols ! i) = DatatypeUserdefined \<longrightarrow>
          IsUserDefined (cols ! i) \<and>
          (\<exists>n s. elementUdtName (rs ! i) = Some n \<and> elementUdtSchema (rs ! i) = Some s \<and>
             UserDefinedType (cols ! i) = Some \<lparr>UserDefinedType.Name = n, Schema = s\<rparr>)) \<and>
       (elementArraytypeRaw (rs ! i) = Some ''integer'' \<longrightarrow> Datatype (cols ! i) = DatatypeInt)"
      using A F by blast
  qed
  with ok len show ?thesis by blast
qed

lemma parseTableColumns_array_row:
  assumes "postgresDatatypemap (datatypeRaw r) = Some DatatypeArray"
    and "elementArraytypeRaw r = Some e"
    and "postgresDatatypemap e = Some DatatypeUserdefined \<longrightarrow>
           elementUdtName r = Some n \<and> elementUdtSchema r = Some s"
  shows "\<exists>col. parseTableColumns_row r = Ok col \<and>
    IsArray col \<and> DatatypeRaw col = datatypeRaw r \<and>
    Datatype col = (case postgresDatatypemap e of Some d \<Rightarrow> d | None \<Rightarrow> DatatypeUnknown) \<and>
    (Datatype col = DatatypeUserdefined \<longrightarrow>
       IsUserDefined col \<and>
       UserDefinedType col = Some \<lparr>UserDefinedType.Name = n, Schema = s\<rparr>) \<and>
    (e = ''integer'' \<longrightarrow> Datatype col = DatatypeInt)"
proof -
  from parseTableColumns_row_array_Ok[OF assms(1,2)] assms(3)
  obtain col where col: "parseTableColumns_row r = Ok col" by auto
  note A = parseTableColumns_row_array[OF col assms(1)]
  note F = parseTableColumns_row_fresh[OF col]
  have int: "postgresDatatypemap ''integer'' = Some DatatypeInt"
    by (simp add: postgresDatatypemap_def)
  from A assms(2) have d: "Datatype col =
      (case postgresDatatypemap e of Some d \<Rightarrow> d | None \<Rightarrow> DatatypeUnknown)" by auto
  have ud: "postgresDatatypemap e = Some DatatypeUserdefined" if "Datatype col = DatatypeUserdefined"
    using that d by (auto split: option.splits)
  have u: "Datatype col = DatatypeUserdefined \<longrightarrow>
       IsUserDefined col \<and>
       UserDefinedType col = Some \<lparr>UserDefinedType.Name = n, Schema = s\<rparr>"
    using A ud assms(3) by auto
  have i: "e = ''integer'' \<longrightarrow> Datatype col = DatatypeInt" using d int by auto
  from col A F d u i show ?thesis by blast
qed

text \<open>
  Claim C6, as amended. A row whose raw type classifies as array, whose element type
  string is not NULL and, when that string classifies as user-defined, whose
  element-level udt name and schema are not NULL, is made into a column: it has
  \<open>IsArray\<close> set, keeps the outer raw string in \<open>DatatypeRaw\<close>, has as \<open>Datatype\<close> the
  classification of the element type string (\<open>DatatypeUnknown\<close> when it is unmapped)
  and, when that is user-defined, has \<open>IsUserDefined\<close> set and \<open>UserDefinedType\<close> built
  from the element-level udt name and schema; an array of \<^verbatim>\<open>integer\<close> gets
  \<open>DatatypeInt\<close>. And when every row of the table scans and no row has a NULL where
  the code dereferences it, the extractor returns these columns, one per row, in
  row order.
\<close>

theorem parseTableColumns_array_rows:
  "(postgresDatatypemap (datatypeRaw r) = Some DatatypeArray \<and>
    elementArraytypeRaw r = Some e \<and>
    (postgresDatatypemap e = Some DatatypeUserdefined \<longrightarrow>
       elementUdtName r = Some n \<and> elementUdtSchema r = Some s)
    \<longrightarrow>
    (\<exists>col. parseTableColumns_row r = Ok col \<and>
       IsArray col \<and> DatatypeRaw col = datatypeRaw r \<and>
       Datatype col = (case postgresDatatypemap e of Some d \<Rightarrow> d | None \<Rightarrow> DatatypeUnknown) \<and>
       (Datatype col = DatatypeUserdefined \<longrightarrow>
          IsUserDefined col \<and>
          UserDefinedType col = Some \<lparr>UserDefinedType.Name = n, Schema = s\<rparr>) \<and>
       (e = ''integer'' \<longrightarrow> Datatype col = DatatypeInt))) \<and>
   (queryColumns (db a) (schemaname a) t = Inr (map Inr rs) \<and>
    (\<forall>r\<in>set rs.
      (postgresDatatypemap (datatypeRaw r) = Some DatatypeUserdefined \<longrightarrow>
         udtName r \<noteq> None \<and> udtSchema r \<noteq> None) \<and>
      (postgresDatatypemap (datatypeRaw r) = Some DatatypeArray \<longrightarrow>
         elementArraytypeRaw r \<noteq> None \<and>
         (\<forall>e. elementArraytypeRaw r = Some e \<and>
              postgresDatatypemap e = Some DatatypeUserdefined \<longrightarrow>
              elementUdtName r \<noteq> None \<and> elementUdtSchema r \<noteq> None)))
    \<longrightarrow>
    (\<exists>cols. parseTableColumns a t = Ok cols \<and>
       list_all2 (\<lambda>r col. parseTableColumns_row r = Ok col) rs cols))"
proof (intro conjI impI)
  assume "postgresDatatypemap (datatypeRaw r) = Some DatatypeArray \<and>
    elementArraytypeRaw r = Some e \<and>
    (postgresDatatypemap e = Some DatatypeUserdefined \<longrightarrow>
       elementUdtName r = Some n \<and> elementUdtSchema r = Some s)"
  then show "\<exists>col. parseTableColumns_row r = Ok col \<and>
       IsArray col \<and> DatatypeRaw col = datatypeRaw r \<and>
       Datatype col = (case postgresDatatypemap e of Some d \<Rightarrow> d | None \<Rightarrow> DatatypeUnknown) \<and>
       (Datatype col = DatatypeUserdefined \<longrightarrow>
          IsUserDefined col \<and>
          UserDefinedType col = Some \<lparr>UserDefinedType.Name = n, Schema = s\<rparr>) \<and>
       (e = ''integer'' \<longrightarrow> Datatype col = DatatypeInt)"
    using parseTableColumns_array_row[of r e n s] by blast
next
  assume h: "queryColumns (db a) (schemaname a) t = Inr (map Inr rs) \<and>
    (\<forall>r\<in>set rs.
      (postgresDatatypemap (datatypeRaw r) = Some DatatypeUserdefined \<longrightarrow>
         udtName r \<noteq> None \<and> udtSchema r \<noteq> None) \<and>
      (postgresDatatypemap (datatypeRaw r) = Some DatatypeArray \<longrightarrow>
         elementArraytypeRaw r \<noteq> None \<and>
         (\<forall>e. elementArraytypeRaw r = Some e \<and>
              postgresDatatypemap e = Some DatatypeUserdefined \<longrightarrow>
              elementUdtName r \<noteq> None \<and> elementUdtSchema r \<noteq> None)))"
  from parseTableColumns_array_table[OF conjunct1[OF h] conjunct2[OF h]]
  obtain cols where ok: "parseTableColumns a t = Ok cols" by blast
  then have "list_all2 (\<lambda>r col. parseTableColumns_row r = Ok col) rs cols"
    using conjunct1[OF h] by (auto simp: parseTableColumns_Ok inj_map_eq_map)
  with ok show "\<exists>cols. parseTableColumns a t = Ok cols \<and>
       list_all2 (\<lambda>r col. parseTableColumns_row r = Ok col) rs cols" by blast
qed

lemmas example_defs = example_adapter_def example_db_def users_columns_def users_constraints_def
  example_column_def example_constraint_def with_columns_def with_constraints_def with_tables_def

lemmas eval_defs = parseTableColumns_def parseTableConstraints_def parseTableColumns_row_def
  parseTableColumns_fields_def parseTableColumns_userdefined_def parseTableColumns_array_def
  parseTableConstraints_row_def deref_def postgresDatatypemap_def Let_def

theorem parseTableColumns_array_rows_witness:
  "postgresDatatypemap (datatypeRaw (users_columns ! 2)) = Some DatatypeArray \<and>
   elementArraytypeRaw (users_columns ! 2) = Some ''integer'' \<and>
   postgresDatatypemap ''integer'' \<noteq> Some DatatypeUserdefined \<and>
   queryColumns (db example_adapter) (schemaname example_adapter) ''users''
     = Inr (map Inr users_columns) \<and>
   (\<exists>cols. parseTableColumns example_adapter ''users'' = Ok cols \<and> length cols = 4 \<and>
      parseTableColumns_row (users_columns ! 2) = Ok (cols ! 2) \<and>
      IsArray (cols ! 2) \<and> DatatypeRaw (cols ! 2) = ''ARRAY'' \<and>
      Datatype (cols ! 2) = DatatypeInt)"
proof -
  have q: "queryColumns (db example_adapter) (schemaname example_adapter) ''users''
       = Inr (map Inr users_columns)"
    by (simp add: example_adapter_def example_db_def)
  have nn: "\<forall>r\<in>set users_columns.
      (postgresDatatypemap (datatypeRaw r) = Some DatatypeUserdefined \<longrightarrow>
         udtName r \<noteq> None \<and> udtSchema r \<noteq> None) \<and>
      (postgresDatatypemap (datatypeRaw r) = Some DatatypeArray \<longrightarrow>
         elementArraytypeRaw r \<noteq> None \<and>
         (\<forall>e. elementArraytypeRaw r = Some e \<and>
              postgresDatatypemap e = Some DatatypeUserdefined \<longrightarrow>
              elementUdtName r \<noteq> None \<and> elementUdtSchema r \<noteq> None))"
    by (simp add: users_columns_def example_column_def postgresDatatypemap_def)
  have arr: "postgresDatatypemap (datatypeRaw (users_columns ! 2)) = Some DatatypeArray"
    and el: "elementArraytypeRaw (users_columns ! 2) = Some ''integer''"
    and raw: "datatypeRaw (users_columns ! 2) = ''ARRAY''"
    and len: "length users_columns = 4"
    and int: "postgresDatatypemap ''integer'' \<noteq> Some DatatypeUserdefined"
    by (simp_all add: users_columns_def example_column_def postgresDatatypemap_def)
  note inst = parseTableColumns_array_rows[of "users_columns ! 2" "''integer''" "[]" "[]"
      example_adapter "''users''" users_columns]
  from inst arr el int obtain col where
    col: "parseTableColumns_row (users_columns ! 2) = Ok col"
    and props: "IsArray col" "DatatypeRaw col = datatypeRaw (users_columns ! 2)"
      "Datatype col = DatatypeInt"
    by blast
  from inst q nn obtain cols where
    ok: "parseTableColumns example_adapter ''users'' = Ok cols"
    and rows: "list_all2 (\<lambda>r col. parseTableColumns_row r = Ok col) users_columns cols"
    by blast
  have l: "length cols = 4" using rows len by (simp add: list_all2_lengthD)
  have "parseTableColumns_row (users_columns ! 2) = Ok (cols ! 2)"
    using rows len by (simp add: list_all2_conv_all_nth)
  with col have c2: "cols ! 2 = col" by simp
  have "\<exists>cols. parseTableColumns example_adapter ''users'' = Ok cols \<and> length cols = 4 \<and>
      parseTableColumns_row (users_columns ! 2) = Ok (cols ! 2) \<and>
      IsArray (cols ! 2) \<and> DatatypeRaw (cols ! 2) = ''ARRAY'' \<and>
      Datatype (cols ! 2) = DatatypeInt"
    using ok l col c2 props raw by (intro exI[of _ cols]) simp
  with arr el int q show ?thesis by (intro conjI)
qed

text \<open>
  Claim C6 as stated fails: a row of raw type \<^verbatim>\<open>ARRAY\<close> whose element type is NULL
  gets no column at all, the extraction panics.
\<close>

theorem array_null_element_counterexample:
  "postgresDatatypemap (datatypeRaw (example_column 4 ''tags'' ''ARRAY'' None)) = Some DatatypeArray \<and>
   parseTableColumns (with_columns [example_column 4 ''tags'' ''ARRAY'' None]) ''users'' = Panic"
  by (simp add: example_defs eval_defs)

section \<open>Constraint labels\<close>

lemma parseTableConstraints_loop_labels:
  assumes "\<forall>r\<in>set rs. columnname r \<noteq> None \<and> foreignTablename r \<noteq> None \<and>
             foreignColumnname r \<noteq> None"
  shows "parseTableConstraints_loop t (map Inr rs) acc =
    (case find (\<lambda>r. constrainttype r \<notin> {''PRIMARY KEY'', ''FOREIGN KEY'', ''UNIQUE''}) rs of
       Some r \<Rightarrow> Failed (FmtError (''unsupported constraint type: '' @ constrainttype r))
     | None \<Rightarrow> Ok (acc @ map (\<lambda>r.
         \<lparr>Constraint.Name = constraintname r,
          Type = (if constrainttype r = ''PRIMARY KEY'' then ConstraintTypePrimaryKey
                  else if constrainttype r = ''FOREIGN KEY'' then ConstraintTypeForeignKey
                  else ConstraintTypeUnique),
          Tablename = t, Columnname = the (columnname r),
          Constraint.ForeignTablename = the (foreignTablename r),
          Constraint.ForeignColumnname = the (foreignColumnname r)\<rparr>) rs))"
  using assms
proof (induction rs arbitrary: acc)
  case Nil
  then show ?case by simp
next
  case (Cons r rs)
  let ?bad = "\<lambda>r. constrainttype r \<notin> {''PRIMARY KEY'', ''FOREIGN KEY'', ''UNIQUE''}"
  let ?mk = "\<lambda>r. \<lparr>Constraint.Name = constraintname r,
          Type = (if constrainttype r = ''PRIMARY KEY'' then ConstraintTypePrimaryKey
                  else if constrainttype r = ''FOREIGN KEY'' then ConstraintTypeForeignKey
                  else ConstraintTypeUnique),
          Tablename = t, Columnname = the (columnname r),
          Constraint.ForeignTablename = the (foreignTablename r),
          Constraint.ForeignColumnname = the (foreignColumnname r)\<rparr>"
  have IH: "parseTableConstraints_loop t (map Inr rs) acc' =
    (case find ?bad rs of
       Some r \<Rightarrow> Failed (FmtError (''unsupported constraint type: '' @ constrainttype r))
     | None \<Rightarrow> Ok (acc' @ map ?mk rs))" for acc'
    using Cons.prems by (intro Cons.IH) simp
  from Cons.prems obtain cn ft fc where nn: "columnname r = Some cn"
    "foreignTablename r = Some ft" "foreignColumnname r = Some fc" by auto
  show ?case
  proof (cases "?bad r")
    case True
    then have "parseTableConstraints_row t r =
        Failed (FmtError (''unsupported constraint type: '' @ constrainttype r))"
      using nn by (simp add: parseTableConstraints_row_def deref_def Let_def)
    moreover have "find ?bad (r # rs) = Some r" using True by simp
    ultimately show ?thesis by simp
  next
    case False
    then have row: "parseTableConstraints_row t r = Ok (?mk r)"
      using nn by (auto simp: parseTableConstraints_row_def deref_def Let_def)
    have f: "find ?bad (r # rs) = find ?bad rs" using False by auto
    show ?thesis
      unfolding f list.map parseTableConstraints_loop.simps row result.case IH
      by (simp split: option.splits)
  qed
qed

text \<open>
  Claim C3, as amended. On rows whose column name and foreign names are not NULL, the
  extractor fails exactly when some row's label lies outside
  \<^verbatim>\<open>{PRIMARY KEY, FOREIGN KEY, UNIQUE}\<close>; when every label lies inside that set, it
  returns one record per row, each of the type its label names.
\<close>

theorem parseTableConstraints_labels:
  assumes "queryConstraints (db a) (schemaname a) t = Inr (map Inr rs)"
    and "\<forall>r\<in>set rs. columnname r \<noteq> None \<and> foreignTablename r \<noteq> None \<and>
           foreignColumnname r \<noteq> None"
  shows "((\<exists>e. parseTableConstraints a t = Failed e) \<longleftrightarrow>
          (\<exists>r\<in>set rs. constrainttype r \<notin> {''PRIMARY KEY'', ''FOREIGN KEY'', ''UNIQUE''})) \<and>
         ((\<forall>r\<in>set rs. constrainttype r \<in> {''PRIMARY KEY'', ''FOREIGN KEY'', ''UNIQUE''}) \<longrightarrow>
          (\<exists>cs. parseTableConstraints a t = Ok cs \<and>
             map Type cs = map (\<lambda>r.
               if constrainttype r = ''PRIMARY KEY'' then ConstraintTypePrimaryKey
               else if constrainttype r = ''FOREIGN KEY'' then ConstraintTypeForeignKey
               else ConstraintTypeUnique) rs))"
proof -
  let ?bad = "\<lambda>r. constrainttype r \<notin> {''PRIMARY KEY'', ''FOREIGN KEY'', ''UNIQUE''}"
  note loop = parseTableConstraints_loop_labels[OF assms(2), of t "[]"]
  have run: "parseTableConstraints a t = parseTableConstraints_loop t (map Inr rs) []"
    using assms(1) by (simp add: parseTableConstraints_def)
  show ?thesis
  proof (cases "find ?bad rs")
    case None
    then have good: "\<forall>r\<in>set rs. \<not> ?bad r" by (simp add: find_None_iff)
    have ok: "parseTableConstraints a t = Ok (map (\<lambda>r.
         \<lparr>Constraint.Name = constraintname r,
          Type = (if constrainttype r = ''PRIMARY KEY'' then ConstraintTypePrimaryKey
                  else if constrainttype r = ''FOREIGN KEY'' then ConstraintTypeForeignKey
                  else ConstraintTypeUnique),
          Tablename = t, Columnname = the (columnname r),
          Constraint.ForeignTablename = the (foreignTablename r),
          Constraint.ForeignColumnname = the (foreignColumnname r)\<rparr>) rs)"
      unfolding run loop None by simp
    have 1: "\<not> (\<exists>e. parseTableConstraints a t = Failed e)" unfolding ok by simp
    have 2: "\<not> (\<exists>r\<in>set rs. ?bad r)" using good by blast
    have 3: "\<exists>cs. parseTableConstraints a t = Ok cs \<and>
             map Type cs = map (\<lambda>r.
               if constrainttype r = ''PRIMARY KEY'' then ConstraintTypePrimaryKey
               else if constrainttype r = ''FOREIGN KEY'' then ConstraintTypeForeignKey
               else ConstraintTypeUnique) rs"
      unfolding ok by (simp add: comp_def)
    from 1 2 3 show ?thesis by blast
  next
    case (Some r)
    then have bad: "r \<in> set rs" "?bad r" by (auto simp: find_Some_iff)
    have failed: "parseTableConstraints a t =
        Failed (FmtError (''unsupported constraint type: '' @ constrainttype r))"
      unfolding run loop Some by simp
    have 1: "\<exists>e. parseTableConstraints a t = Failed e" unfolding failed by simp
    have 2: "\<exists>r\<in>set rs. ?bad r" using bad by blast
    from 1 2 show ?thesis by blast
  qed
qed

theorem parseTableConstraints_labels_witness:
  "queryConstraints (db example_adapter) (schemaname example_adapter) ''users''
     = Inr (map Inr users_constraints) \<and>
   columnname (users_constraints ! 0) \<noteq> None \<and>
   list_all (\<lambda>r. constrainttype r \<in> {''PRIMARY KEY'', ''FOREIGN KEY'', ''UNIQUE''}) users_constraints \<and>
   (\<exists>cs. parseTableConstraints example_adapter ''users'' = Ok cs \<and>
      map Type cs = [ConstraintTypePrimaryKey, ConstraintTypeUnique, ConstraintTypeForeignKey])"
proof -
  have q: "queryConstraints (db example_adapter) (schemaname example_adapter) ''users''
     = Inr (map Inr users_constraints)"
    by (simp add: example_adapter_def example_db_def)
  have nn: "\<forall>r\<in>set users_constraints. columnname r \<noteq> None \<and> foreignTablename r \<noteq> None \<and>
           foreignColumnname r \<noteq> None"
    by (simp add: users_constraints_def example_constraint_def)
  have lab: "\<forall>r\<in>set users_constraints.
      constrainttype r \<in> {''PRIMARY KEY'', ''FOREIGN KEY'', ''UNIQUE''}"
    by (simp add: users_constraints_def example_constraint_def)
  from parseTableConstraints_labels[OF q nn] lab
  obtain cs where "parseTableConstraints example_adapter ''users'' = Ok cs"
    "map Type cs = map (\<lambda>r.
               if constrainttype r = ''PRIMARY KEY'' then ConstraintTypePrimaryKey
               else if constrainttype r = ''FOREIGN KEY'' then ConstraintTypeForeignKey
               else ConstraintTypeUnique) users_constraints" by blast
  moreover have "map (\<lambda>r.
               if constrainttype r = ''PRIMARY KEY'' then ConstraintTypePrimaryKey
               else if constrainttype r = ''FOREIGN KEY'' then ConstraintTypeForeignKey
               else ConstraintTypeUnique) users_constraints
        = [ConstraintTypePrimaryKey, ConstraintTypeUnique, ConstraintTypeForeignKey]"
    by (simp add: users_constraints_def example_constraint_def)
  ultimately show ?thesis using q nn lab
    by (simp add: list_all_iff users_constraints_def example_constraint_def)
qed

text \<open>
  Claim C3 as stated fails: the label \<^verbatim>\<open>CHECK\<close> is in the claim's set, and a row
  carrying it is a hard failure.
\<close>

theorem check_label_counterexample:
  "parseTableConstraints
     (with_constraints
        [example_constraint ''users_age_check'' ''CHECK'' (Some ''age'') (Some ''users'') (Some ''age'')])
     ''users''
   = Failed (FmtError ''unsupported constraint type: CHECK'')"
  by (simp add: example_defs eval_defs)

text \<open>
  Claim C2 as stated fails: the catalog reports, for the primary key of \<^verbatim>\<open>users\<close>, the
  key's own table and column as foreign names, and the record produced for this
  primary-key row has them in its foreign fields, not empty strings.
\<close>

theorem primary_key_foreign_fields_counterexample:
  "parseTableConstraints
     (with_constraints
        [example_constraint ''users_pkey'' ''PRIMARY KEY'' (Some ''id'') (Some ''users'') (Some ''id'')])
     ''users''
   = Ok [\<lparr>Constraint.Name = ''users_pkey'', Type = ConstraintTypePrimaryKey,
          Tablename = ''users'', Columnname = ''id'',
          Constraint.ForeignTablename = ''users'', Constraint.ForeignColumnname = ''id''\<rparr>]"
  by (simp add: example_defs eval_defs)

theorem parseTableConstraints_foreign_verbatim_witness:
  "\<exists>cs. parseTableConstraints example_adapter ''users'' = Ok cs \<and> length cs = 3 \<and>
     foreignTablename (users_constraints ! 0) = Some ''users'' \<and>
     Type (cs ! 0) = ConstraintTypePrimaryKey \<and>
     Constraint.ForeignTablename (cs ! 0) = ''users'' \<and>
     Constraint.ForeignColumnname (cs ! 0) = ''id''"
proof -
  obtain cs where ok: "parseTableConstraints example_adapter ''users'' = Ok cs"
    and ty: "Type (cs ! 0) = ConstraintTypePrimaryKey"
    by (simp add: example_defs eval_defs)
  from parseTableConstraints_foreign_verbatim[OF ok] obtain rs where
    rs: "queryConstraints (db example_adapter) (schemaname example_adapter) ''users''
          = Inr (map Inr rs)" "length cs = length rs"
    and all: "\<forall>i<length cs.
       foreignTablename (rs ! i) = Some (Constraint.ForeignTablename (cs ! i)) \<and>
       foreignColumnname (rs ! i) = Some (Constraint.ForeignColumnname (cs ! i))"
    by blast
  have "map Inr rs = (map Inr users_constraints :: (error + ConstraintRow) list)"
    using rs(1) by (simp add: example_adapter_def example_db_def)
  then have eq: "rs = users_constraints" by (simp add: inj_map_eq_map)
  have len: "length users_constraints = 3"
    and r0: "foreignTablename (users_constraints ! 0) = Some ''users''"
        "foreignColumnname (users_constraints ! 0) = Some ''id''"
    by (simp_all add: users_constraints_def example_constraint_def)
  from all rs(2) eq len r0 have "Constraint.ForeignTablename (cs ! 0) = ''users'' \<and>
     Constraint.ForeignColumnname (cs ! 0) = ''id''" by auto
  with ok ty rs(2) eq len r0 show ?thesis by auto
qed

section \<open>Nil dereferences, and the Schema's Parse\<close>

text \<open>
  Claim C9. Extraction is not total over rows with NULLs: a first constraint row
  with a NULL column name, foreign table name or foreign column name, a first column
  row of raw type \<^verbatim>\<open>ARRAY\<close> with a NULL element type, a first column row of raw type
  \<^verbatim>\<open>USER-DEFINED\<close> with a NULL udt name or schema, and a first table row with a NULL
  table name each end in the panic of a nil dereference, not in an error value or a
  defaulted field.
\<close>

theorem null_fields_panic:
  "(queryConstraints (db a) (schemaname a) t = Inr (Inr r # rest) \<and>
      (columnname r = None \<or> foreignTablename r = None \<or> foreignColumnname r = None)
      \<longrightarrow> parseTableConstraints a t = Panic) \<and>
   (queryColumns (db a) (schemaname a) t = Inr (Inr cr # crest) \<and>
      datatypeRaw cr = ''ARRAY'' \<and> elementArraytypeRaw cr = None
      \<longrightarrow> parseTableColumns a t = Panic) \<and>
   (queryColumns (db a) (schemaname a) t = Inr (Inr cr # crest) \<and>
      datatypeRaw cr = ''USER-DEFINED'' \<and> (udtName cr = None \<or> udtSchema cr = None)
      \<longrightarrow> parseTableColumns a t = Panic) \<and>
   (queryTables (db a) (schemaname a) = Inr (Inr None # trest)
      \<longrightarrow> PostgresAdapter_Tables a order = Panic)"
proof (intro conjI impI)
  assume "queryConstraints (db a) (schemaname a) t = Inr (Inr r # rest) \<and>
      (columnname r = None \<or> foreignTablename r = None \<or> foreignColumnname r = None)"
  then show "parseTableConstraints a t = Panic"
    using parseTableConstraints_row_Panic[of t r]
    by (auto simp: parseTableConstraints_def)
next
  assume "queryColumns (db a) (schemaname a) t = Inr (Inr cr # crest) \<and>
      datatypeRaw cr = ''ARRAY'' \<and> elementArraytypeRaw cr = None"
  moreover have "postgresDatatypemap ''ARRAY'' = Some DatatypeArray"
    by (simp add: postgresDatatypemap_def)
  ultimately show "parseTableColumns a t = Panic"
    using parseTableColumns_row_Panic[of cr]
    by (auto simp: parseTableColumns_def)
next
  assume "queryColumns (db a) (schemaname a) t = Inr (Inr cr # crest) \<and>
      datatypeRaw cr = ''USER-DEFINED'' \<and> (udtName cr = None \<or> udtSchema cr = None)"
  moreover have "postgresDatatypemap ''USER-DEFINED'' = Some DatatypeUserdefined"
    by (simp add: postgresDatatypemap_def)
  ultimately show "parseTableColumns a t = Panic"
    using parseTableColumns_row_Panic[of cr]
    by (auto simp: parseTableColumns_def)
next
  assume "queryTables (db a) (schemaname a) = Inr (Inr None # trest)"
  then show "PostgresAdapter_Tables a order = Panic"
    by (simp add: PostgresAdapter_Tables_def deref_def)
qed

theorem null_fields_panic_witness:
  "parseTableConstraints
     (with_constraints
        [example_constraint ''users_pkey'' ''PRIMARY KEY'' (Some ''id'') None None])
     ''users'' = Panic \<and>
   parseTableColumns (with_columns [example_column 1 ''tags'' ''ARRAY'' None]) ''users'' = Panic \<and>
   parseTableColumns (with_columns [example_column 1 ''mood'' ''USER-DEFINED'' None]) ''users''
     = Panic \<and>
   PostgresAdapter_Tables (with_tables [None]) (\<lambda>tablename. []) = Panic"
  using
    null_fields_panic[of
      "with_constraints [example_constraint ''users_pkey'' ''PRIMARY KEY'' (Some ''id'') None None]"
      "''users''"
      "example_constraint ''users_pkey'' ''PRIMARY KEY'' (Some ''id'') None None" "[]"
      "example_column 1 ''tags'' ''ARRAY'' None" "[]" "[]" "\<lambda>tablename. []"]
    null_fields_panic[of
      "with_columns [example_column 1 ''tags'' ''ARRAY'' None]"
      "''users''"
      "example_constraint ''users_pkey'' ''PRIMARY KEY'' (Some ''id'') None None" "[]"
      "example_column 1 ''tags'' ''ARRAY'' None" "[]" "[]" "\<lambda>tablename. []"]
    null_fields_panic[of
      "with_columns [example_column 1 ''mood'' ''USER-DEFINED'' None]"
      "''users''"
      "example_constraint ''users_pkey'' ''PRIMARY KEY'' (Some ''id'') None None" "[]"
      "example_column 1 ''mood'' ''USER-DEFINED'' None" "[]" "[]" "\<lambda>tablename. []"]
    null_fields_panic[of
      "with_tables [None]"
      "''users''"
      "example_constraint ''users_pkey'' ''PRIMARY KEY'' (Some ''id'') None None" "[]"
      "example_column 1 ''mood'' ''USER-DEFINED'' None" "[]" "[]" "\<lambda>tablename. []"]
  by (simp add: example_defs)

text \<open>
  Claim C8. \<open>ParseContext\<close> returns nil exactly when the adapter's \<open>Tables\<close> returns
  without error and then its \<open>Enums\<close>, called on the world \<open>Tables\<close> left, returns
  without error. When \<open>Tables\<close> returns an error, that error is returned unchanged and
  the final world is the one \<open>Tables\<close> left: \<open>Enums\<close> was not called. When \<open>Enums\<close>
  returns an error, that error is returned unchanged.
\<close>

theorem ParseContext_result:
  "(fst (ParseContext s w) = Returns None \<longleftrightarrow>
      (\<exists>tables w1 enums w2.
         Adapter.Tables (adapter s) w = (Returns (tables, None), w1) \<and>
         Adapter.Enums (adapter s) w1 = (Returns (enums, None), w2))) \<and>
   (\<forall>tables e w1. Adapter.Tables (adapter s) w = (Returns (tables, Some e), w1) \<longrightarrow>
      ParseContext s w = (Returns (Some e), s\<lparr>Schema.Tables := tables\<rparr>, w1)) \<and>
   (\<forall>tables w1 enums e w2.
      Adapter.Tables (adapter s) w = (Returns (tables, None), w1) \<and>
      Adapter.Enums (adapter s) w1 = (Returns (enums, Some e), w2) \<longrightarrow>
      ParseContext s w =
        (Returns (Some e), s\<lparr>Schema.Tables := tables, Schema.Enums := enums\<rparr>, w2))"
  by (auto simp: ParseContext_def Let_def split: prod.splits call.splits option.splits)

theorem ParseContext_result_witness:
  "Adapter.Tables (adapter (new_schema failing_adapter)) []
     = (Returns ([], Some (DriverError ''connection refused'')), [''Tables'']) \<and>
   ParseContext (new_schema failing_adapter) []
     = (Returns (Some (DriverError ''connection refused'')),
        (new_schema failing_adapter)\<lparr>Schema.Tables := []\<rparr>, [''Tables'']) \<and>
   Adapter.Tables (adapter (new_schema logging_adapter)) []
     = (Returns ([users_table], None), [''Tables'']) \<and>
   Adapter.Enums (adapter (new_schema logging_adapter)) [''Tables'']
     = (Returns ([], None), [''Tables'', ''Enums'']) \<and>
   fst (ParseContext (new_schema logging_adapter) []) = Returns None"
proof -
  have t1: "Adapter.Tables (adapter (new_schema failing_adapter)) []
     = (Returns ([], Some (DriverError ''connection refused'')), [''Tables''])"
    by (simp add: new_schema_def failing_adapter_def)
  have t2: "Adapter.Tables (adapter (new_schema logging_adapter)) []
     = (Returns ([users_table], None), [''Tables''])"
    by (simp add: new_schema_def logging_adapter_def)
  have e2: "Adapter.Enums (adapter (new_schema logging_adapter)) [''Tables'']
     = (Returns ([], None), [''Tables'', ''Enums''])"
    by (simp add: new_schema_def logging_adapter_def)
  from ParseContext_result[of "new_schema failing_adapter" "[]"] t1
  have p1: "ParseContext (new_schema failing_adapter) []
     = (Returns (Some (DriverError ''connection refused'')),
        (new_schema failing_adapter)\<lparr>Schema.Tables := []\<rparr>, [''Tables''])"
    by blast
  from ParseContext_result[of "new_schema logging_adapter" "[]"] t2 e2
  have p2: "fst (ParseContext (new_schema logging_adapter) []) = Returns None"
    by blast
  from t1 p1 t2 e2 p2 show ?thesis by blast
qed

lemma Enums_loop_rows:
  "\<exists>m'. Enums_loop (map Inr rs) m = Ok m' \<and>
     (\<forall>n. m' n =
        (case filter (\<lambda>(n', order, label). n' = n) rs of
           [] \<Rightarrow> m n
         | vs \<Rightarrow> Some (case m n of
              None \<Rightarrow> \<lparr>Enum.Name = n,
                        Values = map (\<lambda>(n', order, label). \<lparr>Label = label, Order = order\<rparr>) vs\<rparr>
            | Some e \<Rightarrow> e\<lparr>Values := Values e @
                        map (\<lambda>(n', order, label). \<lparr>Label = label, Order = order\<rparr>) vs\<rparr>)))"
proof (induction rs arbitrary: m)
  case Nil
  then show ?case by simp
next
  case (Cons r rs)
  obtain name order label where r: "r = (name, order, label)" by (cases r) auto
  define e1 where "e1 = (case m name of
      Some enum \<Rightarrow> enum\<lparr>Values := Values enum @ [\<lparr>Label = label, Order = order\<rparr>]\<rparr>
    | None \<Rightarrow> \<lparr>Enum.Name = name, Values = [\<lparr>Label = label, Order = order\<rparr>]\<rparr>)"
  have step: "Enums_loop (map Inr (r # rs)) m = Enums_loop (map Inr rs) (m(name \<mapsto> e1))"
    by (simp add: r e1_def split: option.splits)
  from Cons[of "m(name \<mapsto> e1)"] obtain m' where
    m': "Enums_loop (map Inr rs) (m(name \<mapsto> e1)) = Ok m'"
    and IH: "\<And>n. m' n =
        (case filter (\<lambda>(n', order, label). n' = n) rs of
           [] \<Rightarrow> (m(name \<mapsto> e1)) n
         | vs \<Rightarrow> Some (case (m(name \<mapsto> e1)) n of
              None \<Rightarrow> \<lparr>Enum.Name = n,
                        Values = map (\<lambda>(n', order, label). \<lparr>Label = label, Order = order\<rparr>) vs\<rparr>
            | Some e \<Rightarrow> e\<lparr>Values := Values e @
                        map (\<lambda>(n', order, label). \<lparr>Label = label, Order = order\<rparr>) vs\<rparr>))"
    by blast
  have "m' n =
        (case filter (\<lambda>(n', order, label). n' = n) (r # rs) of
           [] \<Rightarrow> m n
         | vs \<Rightarrow> Some (case m n of
              None \<Rightarrow> \<lparr>Enum.Name = n,
                        Values = map (\<lambda>(n', order, label). \<lparr>Label = label, Order = order\<rparr>) vs\<rparr>
            | Some e \<Rightarrow> e\<lparr>Values := Values e @
                        map (\<lambda>(n', order, label). \<lparr>Label = label, Order = order\<rparr>) vs\<rparr>))" for n
    unfolding IH[of n]
    by (cases "n = name") (auto simp: r e1_def split: list.splits option.splits)
  then show ?case unfolding step using m' by blast
qed

section \<open>Properties of Enums\<close>

lemma range_values_map:
  "\<forall>k\<in>set ks. m k = Some (f k) \<Longrightarrow> range_values m ks = map f ks"
  by (induction ks) auto

lemma range_values_subset: "set (range_values m ks) \<subseteq> ran m"
  by (induction ks) (auto simp: ran_def split: option.splits)

lemma set_range_values: "set ks = dom m \<Longrightarrow> set (range_values m ks) = ran m"
proof
  show "set (range_values m ks) \<subseteq> ran m" by (rule range_values_subset)
next
  assume ks: "set ks = dom m"
  have "v \<in> set (range_values m ks')" if "k \<in> set ks'" "m k = Some v" for k v ks'
    using that by (induction ks') (auto split: option.splits)
  then show "ran m \<subseteq> set (range_values m ks)" using ks by (fastforce simp: ran_def)
qed

text \<open>
  Claim C1, as amended. When the rows scan and the range over the map visits each type
  name once, the extractor returns one \<open>Enum\<close> per type name, and the values of each
  are the (label, order) pairs of the rows of that name in the order in which the
  catalog delivered them; so they are sorted by \<open>Order\<close> exactly when the catalog
  delivers the rows of that type in sort order.
\<close>

theorem PostgresAdapter_Enums_row_order:
  assumes "queryEnums (db a) (schemaname a) = Inr (map Inr rs)"
    and "distinct ks" and "set ks = fst ` set rs"
  shows "\<exists>enumsByName enums.
     Enums_loop (map Inr rs) Map.empty = Ok enumsByName \<and> map_range enumsByName ks \<and>
     PostgresAdapter_Enums a ks = Ok enums \<and> map Enum.Name enums = ks \<and>
     (\<forall>e\<in>set enums.
        Values e = map (\<lambda>(n, order, label). \<lparr>Label = label, Order = order\<rparr>)
                     (filter (\<lambda>(n, order, label). n = Enum.Name e) rs) \<and>
        (sorted (map Order (Values e)) \<longleftrightarrow>
           sorted (map (\<lambda>(n, order, label). order)
                     (filter (\<lambda>(n, order, label). n = Enum.Name e) rs))))"
proof -
  let ?val = "\<lambda>(n :: string, order :: int, label :: string). \<lparr>Label = label, Order = order\<rparr>"
  let ?rows = "\<lambda>n. filter (\<lambda>(n' :: string, order :: int, label :: string). n' = n) rs"
  let ?enum = "\<lambda>n. \<lparr>Enum.Name = n, Values = map ?val (?rows n)\<rparr>"
  from Enums_loop_rows[of rs Map.empty] obtain enumsByName where
    loop: "Enums_loop (map Inr rs) Map.empty = Ok enumsByName"
    and pt: "\<And>n. enumsByName n =
      (case ?rows n of [] \<Rightarrow> None | vs \<Rightarrow> Some \<lparr>Enum.Name = n, Values = map ?val vs\<rparr>)"
    by (auto split: list.splits)
  have look: "enumsByName n = (if ?rows n = [] then None else Some (?enum n))" for n
    unfolding pt by (simp split: list.splits)
  have empty: "?rows n = [] \<longleftrightarrow> n \<notin> fst ` set rs" for n
    by (auto simp: filter_empty_conv image_iff)
  have dom: "dom enumsByName = fst ` set rs"
    using look empty by (auto simp: dom_def)
  have range: "map_range enumsByName ks"
    using assms(2,3) dom by (simp add: map_range_def)
  have "\<forall>k\<in>set ks. enumsByName k = Some (?enum k)"
    using look empty assms(3) by auto
  then have vals: "range_values enumsByName ks = map ?enum ks" by (rule range_values_map)
  have run: "PostgresAdapter_Enums a ks = Ok (map ?enum ks)"
    using assms(1) loop vals by (simp add: PostgresAdapter_Enums_def)
  have names: "map Enum.Name (map ?enum ks) = ks" by (simp add: comp_def)
  have ord: "map Order (map ?val xs) = map (\<lambda>(n, order, label). order) xs" for xs
    by (induction xs) auto
  have each: "\<forall>e\<in>set (map ?enum ks).
        Values e = map ?val (?rows (Enum.Name e)) \<and>
        (sorted (map Order (Values e)) \<longleftrightarrow>
           sorted (map (\<lambda>(n, order, label). order) (?rows (Enum.Name e))))"
  proof
    fix e assume "e \<in> set (map ?enum ks)"
    then obtain k where e: "e = ?enum k" by auto
    have v: "Values e = map ?val (?rows (Enum.Name e))" by (simp add: e)
    have "map Order (Values e) = map (\<lambda>(n, order, label). order) (?rows (Enum.Name e))"
      unfolding v by (rule ord)
    then have "sorted (map Order (Values e)) \<longleftrightarrow>
           sorted (map (\<lambda>(n, order, label). order) (?rows (Enum.Name e)))"
      by (rule arg_cong)
    with v show "Values e = map ?val (?rows (Enum.Name e)) \<and>
        (sorted (map Order (Values e)) \<longleftrightarrow>
           sorted (map (\<lambda>(n, order, label). order) (?rows (Enum.Name e))))" by (rule conjI)
  qed
  show ?thesis
    by (intro exI[of _ enumsByName] exI[of _ "map ?enum ks"] conjI)
       (rule loop range run names each)+
qed

text \<open>
  Claim C1 as stated fails: when the catalog delivers \<^verbatim>\<open>("done", 1)\<close> before
  \<^verbatim>\<open>("pending", 0)\<close>, the values of \<^verbatim>\<open>status\<close> come out in that order, which is
  not sorted by \<open>Order\<close>.
\<close>

theorem status_rows_counterexample:
  "PostgresAdapter_Enums example_adapter [''status''] =
     Ok [\<lparr>Enum.Name = ''status'',
          Values = [\<lparr>Label = ''done'', Order = 1\<rparr>, \<lparr>Label = ''pending'', Order = 0\<rparr>]\<rparr>] \<and>
   \<not> sorted (map Order [\<lparr>Label = ''done'', Order = 1\<rparr>, \<lparr>Label = ''pending'', Order = 0\<rparr>])"
  by (simp add: PostgresAdapter_Enums_def example_adapter_def example_db_def status_rows_def)

theorem PostgresAdapter_Enums_row_order_witness:
  "queryEnums (db example_adapter) (schemaname example_adapter) = Inr (map Inr status_rows) \<and>
   distinct [''status''] \<and> set [''status''] = fst ` set status_rows \<and>
   (\<exists>e. PostgresAdapter_Enums example_adapter [''status''] = Ok [e] \<and>
      Enum.Name e = ''status'' \<and>
      Values e = map (\<lambda>(n, order, label). \<lparr>Label = label, Order = order\<rparr>) status_rows)"
proof -
  have q: "queryEnums (db example_adapter) (schemaname example_adapter)
      = Inr (map Inr status_rows)"
    by (simp add: example_adapter_def example_db_def)
  have d: "distinct [''status'']" by simp
  have k: "set [''status''] = fst ` set status_rows" by (simp add: status_rows_def)
  from PostgresAdapter_Enums_row_order[OF q d k] obtain enumsByName enums where
    all: "Enums_loop (map Inr status_rows) Map.empty = Ok enumsByName \<and>
      map_range enumsByName [''status''] \<and>
      PostgresAdapter_Enums example_adapter [''status''] = Ok enums \<and>
      map Enum.Name enums = [''status''] \<and>
      (\<forall>e\<in>set enums.
        Values e = map (\<lambda>(n, order, label). \<lparr>Label = label, Order = order\<rparr>)
                     (filter (\<lambda>(n, order, label). n = Enum.Name e) status_rows) \<and>
        (sorted (map Order (Values e)) \<longleftrightarrow>
           sorted (map (\<lambda>(n, order, label). order)
                     (filter (\<lambda>(n, order, label). n = Enum.Name e) status_rows))))"
    by (elim exE)
  from all have ok: "PostgresAdapter_Enums example_adapter [''status''] = Ok enums"
    by (rule conjunct2[THEN conjunct2, THEN conjunct1])
  from all have names: "map Enum.Name enums = [''status'']"
    by (rule conjunct2[THEN conjunct2, THEN conjunct2, THEN conjunct1])
  from all have each: "\<forall>e\<in>set enums.
        Values e = map (\<lambda>(n, order, label). \<lparr>Label = label, Order = order\<rparr>)
                     (filter (\<lambda>(n, order, label). n = Enum.Name e) status_rows)"
    by fast
  from names obtain e where e: "enums = [e]" "Enum.Name e = ''status''" by auto
  have "filter (\<lambda>(n, order, label). n = ''status'') status_rows = status_rows"
    by (simp add: status_rows_def)
  with each e have v: "Values e = map (\<lambda>(n, order, label). \<lparr>Label = label, Order = order\<rparr>) status_rows"
    by simp
  have "\<exists>e. PostgresAdapter_Enums example_adapter [''status''] = Ok [e] \<and>
      Enum.Name e = ''status'' \<and>
      Values e = map (\<lambda>(n, order, label). \<lparr>Label = label, Order = order\<rparr>) status_rows"
    using ok e v by (intro exI[of _ e]) simp
  with q d k show ?thesis by (intro conjI)
qed

section \<open>Properties of parseTable\<close>

lemma fold_columns_lookup:
  "fold (\<lambda>col m. m(Column.Name col \<mapsto> col)) cols m k = Some col \<Longrightarrow>
   (col \<in> set cols \<and> Column.Name col = k) \<or> m k = Some col"
  by (induction cols arbitrary: m) (fastforce split: if_splits)+

lemma parseTable_Ok:
  assumes "parseTable a ks t = Ok T"
  shows "\<exists>cols cs. parseTableColumns a t = Ok cols \<and> parseTableConstraints a t = Ok cs \<and>
    ColumnsByName T = ColumnsByName (fst (refrenceConstraints
       \<lparr>Table.Name = t, Columns = [],
        ColumnsByName = fold (\<lambda>col m. m(Column.Name col \<mapsto> col)) cols Map.empty\<rparr> cs)) \<and>
    Columns T = sort_key OrdinalPosition (range_values (ColumnsByName T) ks) \<and>
    Table.Name T = t"
proof -
  from assms obtain cols where cols: "parseTableColumns a t = Ok cols"
    by (auto simp: parseTable_def Let_def split: result.splits)
  from assms cols obtain cs where cs: "parseTableConstraints a t = Ok cs"
    by (auto simp: parseTable_def Let_def split: result.splits)
  let ?t1 = "\<lparr>Table.Name = t, Columns = [],
        ColumnsByName = fold (\<lambda>col m. m(Column.Name col \<mapsto> col)) cols Map.empty\<rparr>"
  obtain t2 err where rc: "refrenceConstraints ?t1 cs = (t2, err)" by (cases "refrenceConstraints ?t1 cs")
  have err: "err = None" using refrenceConstraints_no_error[of ?t1 cs] rc by simp
  have t2: "Table.Name t2 = t" "Columns t2 = []"
    using refrenceConstraints_name_columns[of ?t1 cs] rc by simp_all
  have T: "T = t2\<lparr>Columns := sort_key OrdinalPosition (Columns t2 @ range_values (ColumnsByName t2) ks)\<rparr>"
    using assms cols cs rc err by (simp add: parseTable_def Let_def)
  show ?thesis
    using cols cs rc T t2 by auto
qed

lemma parseTable_column:
  assumes "parseTable a ks t = Ok T" and "ColumnsByName T k = Some col"
  shows "\<exists>col0 cs. Column.Name col0 = k \<and> Constraints col0 = [] \<and>
    \<not> IsPrimary col0 \<and> \<not> IsUnique col0 \<and> \<not> IsReference col0 \<and>
    Column.ForeignTablename col0 = [] \<and> Column.ForeignColumnname col0 = [] \<and>
    col = col0\<lparr>Constraints := filter (\<lambda>c. Columnname c = k) cs,
        IsPrimary := \<exists>c\<in>set cs. Columnname c = k \<and> Type c = ConstraintTypePrimaryKey,
        IsUnique := \<exists>c\<in>set cs. Columnname c = k \<and> Type c = ConstraintTypeUnique,
        IsReference := \<exists>c\<in>set cs. Columnname c = k \<and> Type c = ConstraintTypeForeignKey,
        Column.ForeignTablename :=
          (case filter (\<lambda>c. Columnname c = k \<and> Type c = ConstraintTypeForeignKey) cs of
             [] \<Rightarrow> []
           | fks \<Rightarrow> Constraint.ForeignTablename (last fks)),
        Column.ForeignColumnname :=
          (case filter (\<lambda>c. Columnname c = k \<and> Type c = ConstraintTypeForeignKey) cs of
             [] \<Rightarrow> []
           | fks \<Rightarrow> Constraint.ForeignColumnname (last fks))\<rparr>"
proof -
  from parseTable_Ok[OF assms(1)] obtain cols cs where
    cols: "parseTableColumns a t = Ok cols" and
    M: "ColumnsByName T = ColumnsByName (fst (refrenceConstraints
       \<lparr>Table.Name = t, Columns = [],
        ColumnsByName = fold (\<lambda>col m. m(Column.Name col \<mapsto> col)) cols Map.empty\<rparr> cs))"
    by blast
  let ?m0 = "fold (\<lambda>col m. m(Column.Name col \<mapsto> col)) cols Map.empty"
  let ?t1 = "\<lparr>Table.Name = t, Columns = [], ColumnsByName = ?m0\<rparr>"
  have "k \<in> dom ?m0"
    using assms(2) M refrenceConstraints_dom[of ?t1 cs] by auto
  then obtain col0 where col0: "ColumnsByName ?t1 k = Some col0" by auto
  then have "col0 \<in> set cols \<and> Column.Name col0 = k"
    using fold_columns_lookup[of cols Map.empty k col0] by simp
  moreover from cols obtain rs where
    "list_all2 (\<lambda>r col. parseTableColumns_row r = Ok col) rs cols"
    by (auto simp: parseTableColumns_Ok)
  ultimately obtain r where r: "parseTableColumns_row r = Ok col0" and name: "Column.Name col0 = k"
    by (auto simp: list_all2_conv_all_nth in_set_conv_nth)
  note fresh = parseTableColumns_row_fresh[OF r]
  have "col = col0\<lparr>Constraints := Constraints col0 @ filter (\<lambda>c. Columnname c = k) cs,
        IsPrimary := IsPrimary col0 \<or>
          (\<exists>c\<in>set cs. Columnname c = k \<and> Type c = ConstraintTypePrimaryKey),
        IsUnique := IsUnique col0 \<or>
          (\<exists>c\<in>set cs. Columnname c = k \<and> Type c = ConstraintTypeUnique),
        IsReference := IsReference col0 \<or>
          (\<exists>c\<in>set cs. Columnname c = k \<and> Type c = ConstraintTypeForeignKey),
        Column.ForeignTablename :=
          (case filter (\<lambda>c. Columnname c = k \<and> Type c = ConstraintTypeForeignKey) cs of
             [] \<Rightarrow> Column.ForeignTablename col0
           | fks \<Rightarrow> Constraint.ForeignTablename (last fks)),
        Column.ForeignColumnname :=
          (case filter (\<lambda>c. Columnname c = k \<and> Type c = ConstraintTypeForeignKey) cs of
             [] \<Rightarrow> Column.ForeignColumnname col0
           | fks \<Rightarrow> Constraint.ForeignColumnname (last fks))\<rparr>"
    using refrenceConstraints_column[OF col0, of cs] assms(2) M by simp
  then show ?thesis using fresh name
    by (intro exI[of _ col0] exI[of _ cs]) (simp cong: list.case_cong)
qed

lemma parseTable_column_flags:
  assumes "parseTable a ks t = Ok T" and "ColumnsByName T k = Some col"
  shows "Column.Name col = k \<and>
    (\<forall>c\<in>set (Constraints col). Columnname c = Column.Name col) \<and>
    (IsPrimary col \<longleftrightarrow> (\<exists>c\<in>set (Constraints col). Type c = ConstraintTypePrimaryKey)) \<and>
    (IsUnique col \<longleftrightarrow> (\<exists>c\<in>set (Constraints col). Type c = ConstraintTypeUnique)) \<and>
    (IsReference col \<longleftrightarrow> (\<exists>c\<in>set (Constraints col). Type c = ConstraintTypeForeignKey)) \<and>
    (IsReference col \<longrightarrow>
       Column.ForeignTablename col = Constraint.ForeignTablename
         (last (filter (\<lambda>c. Type c = ConstraintTypeForeignKey) (Constraints col))) \<and>
       Column.ForeignColumnname col = Constraint.ForeignColumnname
         (last (filter (\<lambda>c. Type c = ConstraintTypeForeignKey) (Constraints col)))) \<and>
    (\<not> IsReference col \<longrightarrow>
       Column.ForeignTablename col = [] \<and> Column.ForeignColumnname col = [])"
proof -
  from parseTable_column[OF assms] obtain col0 cs where
    name: "Column.Name col0 = k" and
    col: "col = col0\<lparr>Constraints := filter (\<lambda>c. Columnname c = k) cs,
        IsPrimary := \<exists>c\<in>set cs. Columnname c = k \<and> Type c = ConstraintTypePrimaryKey,
        IsUnique := \<exists>c\<in>set cs. Columnname c = k \<and> Type c = ConstraintTypeUnique,
        IsReference := \<exists>c\<in>set cs. Columnname c = k \<and> Type c = ConstraintTypeForeignKey,
        Column.ForeignTablename :=
          (case filter (\<lambda>c. Columnname c = k \<and> Type c = ConstraintTypeForeignKey) cs of
             [] \<Rightarrow> []
           | fks \<Rightarrow> Constraint.ForeignTablename (last fks)),
        Column.ForeignColumnname :=
          (case filter (\<lambda>c. Columnname c = k \<and> Type c = ConstraintTypeForeignKey) cs of
             [] \<Rightarrow> []
           | fks \<Rightarrow> Constraint.ForeignColumnname (last fks))\<rparr>"
    by blast
  let ?fks = "filter (\<lambda>c. Columnname c = k \<and> Type c = ConstraintTypeForeignKey) cs"
  have fks: "filter (\<lambda>c. Type c = ConstraintTypeForeignKey) (Constraints col) = ?fks"
    by (simp add: col conj_commute)
  have ref: "IsReference col \<longleftrightarrow> ?fks \<noteq> []"
    by (auto simp: col filter_empty_conv)
  have ft: "Column.ForeignTablename col = (if ?fks = [] then [] else Constraint.ForeignTablename (last ?fks))"
    and fc: "Column.ForeignColumnname col = (if ?fks = [] then [] else Constraint.ForeignColumnname (last ?fks))"
    by (simp_all add: col split: list.splits)
  have 1: "Column.Name col = k" by (simp add: col name)
  have 2: "\<forall>c\<in>set (Constraints col). Columnname c = Column.Name col" by (simp add: col name)
  have 3: "IsPrimary col \<longleftrightarrow> (\<exists>c\<in>set (Constraints col). Type c = ConstraintTypePrimaryKey)"
    by (auto simp: col)
  have 4: "IsUnique col \<longleftrightarrow> (\<exists>c\<in>set (Constraints col). Type c = ConstraintTypeUnique)"
    by (auto simp: col)
  have 5: "IsReference col \<longleftrightarrow> (\<exists>c\<in>set (Constraints col). Type c = ConstraintTypeForeignKey)"
    by (auto simp: col)
  have 6: "IsReference col \<longrightarrow>
       Column.ForeignTablename col = Constraint.ForeignTablename
         (last (filter (\<lambda>c. Type c = ConstraintTypeForeignKey) (Constraints col))) \<and>
       Column.ForeignColumnname col = Constraint.ForeignColumnname
         (last (filter (\<lambda>c. Type c = ConstraintTypeForeignKey) (Constraints col)))"
    unfolding fks ref ft fc by simp
  have 7: "\<not> IsReference col \<longrightarrow>
       Column.ForeignTablename col = [] \<and> Column.ForeignColumnname col = []"
    unfolding ref ft fc by simp
  from 1 2 3 4 5 6 7 show ?thesis by blast
qed


lemma parseTable_total:
  assumes "parseTableColumns a t = Ok cols" and "parseTableConstraints a t = Ok cs"
  shows "\<exists>T. parseTable a ks t = Ok T"
proof -
  let ?t1 = "\<lparr>Table.Name = t, Columns = [],
        ColumnsByName = fold (\<lambda>col m. m(Column.Name col \<mapsto> col)) cols Map.empty\<rparr>"
  obtain t2 err where rc: "refrenceConstraints ?t1 cs = (t2, err)"
    by (cases "refrenceConstraints ?t1 cs")
  have "err = None" using refrenceConstraints_no_error[of ?t1 cs] rc by simp
  then show ?thesis using assms rc by (simp add: parseTable_def Let_def)
qed


lemmas table_defs = parseTable_def eval_defs example_defs with_rows_def

lemma range_values_names:
  assumes "set ks \<subseteq> dom m" and "\<And>k col. m k = Some col \<Longrightarrow> Column.Name col = k"
  shows "map Column.Name (range_values m ks) = ks"
  using assms(1)
proof (induction ks)
  case Nil
  then show ?case by simp
next
  case (Cons k ks)
  then obtain col where "m k = Some col" by auto
  then show ?case using Cons assms(2)[of k col] by simp
qed

text \<open>
  Claim C5. In every table that \<open>parseTable\<close> returns, when the range over the lookup
  mapping visits each of its keys once, the ordered sequence is sorted non-decreasing
  by \<open>OrdinalPosition\<close>, its elements are exactly the entries of the lookup mapping,
  their names are exactly its keys, and no name occurs twice.
\<close>

theorem parseTable_columns_consistent:
  assumes "parseTable a ks t = Ok T" and "map_range (ColumnsByName T) ks"
  shows "sorted (map OrdinalPosition (Columns T)) \<and>
    set (Columns T) = ran (ColumnsByName T) \<and>
    Column.Name ` set (Columns T) = dom (ColumnsByName T) \<and>
    distinct (map Column.Name (Columns T))"
proof -
  let ?xs = "range_values (ColumnsByName T) ks"
  from parseTable_Ok[OF assms(1)]
  have cols: "Columns T = sort_key OrdinalPosition ?xs" by blast
  have ks: "distinct ks" "set ks = dom (ColumnsByName T)"
    using assms(2) by (simp_all add: map_range_def)
  have key: "Column.Name col = k" if "ColumnsByName T k = Some col" for k col
    using parseTable_column_flags[OF assms(1) that] by blast
  have names: "map Column.Name ?xs = ks"
    using ks(2) key by (intro range_values_names) auto
  have 1: "sorted (map OrdinalPosition (Columns T))" unfolding cols by (rule sorted_sort_key)
  have 2: "set (Columns T) = ran (ColumnsByName T)"
    unfolding cols using set_range_values[OF ks(2)] by simp
  have "Column.Name ` set (Columns T) = set (map Column.Name ?xs)"
    unfolding cols by simp
  then have 3: "Column.Name ` set (Columns T) = dom (ColumnsByName T)"
    unfolding names ks(2) .
  have "distinct (map Column.Name ?xs)" unfolding names by (rule ks(1))
  then have 4: "distinct (map Column.Name (Columns T))"
    unfolding cols by (simp add: distinct_map)
  from 1 2 3 4 show ?thesis by blast
qed



theorem parseTable_columns_consistent_witness:
  "\<exists>T. parseTable example_adapter [''id'', ''email'', ''role_id'', ''tags''] ''users'' = Ok T \<and>
     map_range (ColumnsByName T) [''id'', ''email'', ''role_id'', ''tags''] \<and>
     map OrdinalPosition (Columns T) = [1, 2, 3, 4] \<and>
     sorted (map OrdinalPosition (Columns T)) \<and>
     set (Columns T) = ran (ColumnsByName T) \<and>
     Column.Name ` set (Columns T) = dom (ColumnsByName T)"
proof -
  obtain T where ok: "parseTable example_adapter [''id'', ''email'', ''role_id'', ''tags''] ''users'' = Ok T"
    and dom: "dom (ColumnsByName T) = {''id'', ''email'', ''role_id'', ''tags''}"
    and pos: "map OrdinalPosition (Columns T) = [1, 2, 3, 4]"
    by (simp add: table_defs) blast
  have r: "map_range (ColumnsByName T) [''id'', ''email'', ''role_id'', ''tags'']"
    by (simp add: map_range_def dom)
  note all = parseTable_columns_consistent[OF ok r]
  from all have c1: "sorted (map OrdinalPosition (Columns T))" by (rule conjunct1)
  from all have c2: "set (Columns T) = ran (ColumnsByName T)"
    by (rule conjunct2[THEN conjunct1])
  from all have c3: "Column.Name ` set (Columns T) = dom (ColumnsByName T)"
    by (rule conjunct2[THEN conjunct2, THEN conjunct1])
  show ?thesis
    by (intro exI[of _ T] conjI) (rule ok r pos c1 c2 c3)+
qed

end
